theory Spec2Isabelle
  imports Complex_Main
begin

section \<open>JavaScript values used by the worker\<close>

text \<open>
  Strings are lists of characters, one \<^typ>\<open>char\<close> per UTF-16 code unit below 256.
  \<open>is_space\<close> is the class \<open>\s\<close> of the regular expressions and the set that
  \<open>String.prototype.trim\<close> strips, restricted to that range.
\<close>

definition is_space :: "char \<Rightarrow> bool" where
  "is_space c \<longleftrightarrow> c \<in> {CHR 0x09, CHR 0x0A, CHR 0x0B, CHR 0x0C, CHR 0x0D, CHR 0x20, CHR 0xA0}"

definition trim :: "string \<Rightarrow> string" where
  "trim s = rev (dropWhile is_space (rev (dropWhile is_space s)))"

text \<open>Skipping a run of characters never lengthens a string (used by the termination proofs).\<close>

lemma length_dropWhile_less_Suc [termination_simp]:
  "length (dropWhile P xs) < Suc (length xs)"
  by (simp add: length_dropWhile_le less_Suc_eq_le)

text \<open>A thrown \<open>Error\<close> object, identified by its message.\<close>

datatype js_error = Error (message: string)

text \<open>Decimal rendering of an integer, as a template literal prints a number.\<close>

definition digit_char :: "nat \<Rightarrow> char" where
  "digit_char d = ''0123456789'' ! d"

function digits :: "nat \<Rightarrow> string" where
  "digits n = (if n < 10 then [digit_char n] else digits (n div 10) @ [digit_char (n mod 10)])"
  by pat_completeness auto
termination
  by (relation "measure (\<lambda>n. n)") auto

declare digits.simps [simp del]

definition num_string :: "int \<Rightarrow> string" where
  "num_string i = (if i < 0 then CHR ''-'' # digits (nat (- i)) else digits (nat i))"

text \<open>The values a metadata bag holds.\<close>

datatype meta_value =
    MNum int
  | MReal real
  | MStr string
  | MBool bool
  | MStrs "string list"
  | MUndefined

type_synonym metadata = "string \<rightharpoonup> meta_value"

definition opt_str :: "string option \<Rightarrow> meta_value" where
  "opt_str v = (case v of None \<Rightarrow> MUndefined | Some s \<Rightarrow> MStr s)"

section \<open>The vector store: \<open>PineconeVectorStore.addDocument\<close>\<close>

record pinecone_document =
  doc_id :: string
  doc_values :: "real list"
  doc_metadata :: metadata

text \<open>
  What the external services answer during one attempt: the embedding request (already
  raced against its 30 s timer), the upsert (likewise; \<open>None\<close> is success), and the clock.
\<close>

record services =
  openai_embed :: "string \<Rightarrow> js_error + real list"
  upsert :: "pinecone_document \<Rightarrow> js_error option"
  date_now :: nat
  date_iso :: string

text \<open>
  The text statistics that \<open>addDocument\<close> copies into the metadata
  (\<open>classifyContent\<close>, \<open>detectLanguage\<close>, \<open>extractKeywords\<close> and three inline
  expressions). Their values are opaque here; their keys are those of the source.
\<close>

record text_analysis =
  word_count :: "string \<Rightarrow> nat"
  classifyContent :: "string \<Rightarrow> string"
  detectLanguage :: "string \<Rightarrow> string"
  has_numbers :: "string \<Rightarrow> bool"
  has_urls :: "string \<Rightarrow> bool"
  top_keywords :: "string \<Rightarrow> string list"
  keyword_density :: "string \<Rightarrow> real"

definition extractKeywords :: "text_analysis \<Rightarrow> string \<Rightarrow> metadata" where
  "extractKeywords an text =
     [''top_keywords'' \<mapsto> MStrs (top_keywords an text),
      ''keyword_density'' \<mapsto> MReal (keyword_density an text)]"

definition generateEmbedding :: "services \<Rightarrow> string \<Rightarrow> js_error + real list" where
  "generateEmbedding sv text = openai_embed sv (if text = [] then '' '' else text)"

definition document_id :: "int \<Rightarrow> int \<Rightarrow> int \<Rightarrow> nat \<Rightarrow> string" where
  "document_id agentId knowledgeSourceId chunkIndex now =
     num_string agentId @ ''_'' @ num_string knowledgeSourceId @ ''_'' @
     num_string chunkIndex @ ''_'' @ num_string (int now)"

definition document_metadata ::
  "text_analysis \<Rightarrow> services \<Rightarrow> int \<Rightarrow> int \<Rightarrow> string \<Rightarrow> int \<Rightarrow> string option \<Rightarrow>
   string option \<Rightarrow> metadata \<Rightarrow> nat \<Rightarrow> metadata" where
  "document_metadata an sv knowledgeSourceId agentId content chunkIndex sourceName sourceType
     additionalMetadata attempt =
     [''agent_id'' \<mapsto> MNum agentId,
      ''knowledge_source_id'' \<mapsto> MNum knowledgeSourceId,
      ''content'' \<mapsto> MStr (take 40000 content),
      ''chunk_index'' \<mapsto> MNum chunkIndex,
      ''content_length'' \<mapsto> MNum (int (length content)),
      ''word_count'' \<mapsto> MNum (int (word_count an content)),
      ''content_type'' \<mapsto> MStr (classifyContent an content),
      ''language'' \<mapsto> MStr (detectLanguage an content),
      ''source_name'' \<mapsto> opt_str sourceName,
      ''source_type'' \<mapsto> opt_str sourceType,
      ''created_at'' \<mapsto> MStr (date_iso sv),
      ''has_numbers'' \<mapsto> MBool (has_numbers an content),
      ''has_urls'' \<mapsto> MBool (has_urls an content),
      ''attempt'' \<mapsto> MNum (int attempt)]
     ++ extractKeywords an content ++ additionalMetadata"

text \<open>
  The body of the \<open>try\<close> block of one attempt. \<open>Inl (e, content)\<close> is the exception
  together with the value the variable \<open>content\<close> has when it is thrown (the truncation
  assigns to the parameter, so it survives into the next attempt); \<open>Inr\<close> is the
  identifier returned and the document that was upserted.
\<close>

definition addDocument_attempt ::
  "text_analysis \<Rightarrow> services \<Rightarrow> int \<Rightarrow> int \<Rightarrow> string \<Rightarrow> int \<Rightarrow> string option \<Rightarrow>
   string option \<Rightarrow> metadata \<Rightarrow> nat \<Rightarrow> (js_error \<times> string) + (string \<times> pinecone_document)" where
  "addDocument_attempt an sv knowledgeSourceId agentId content0 chunkIndex sourceName sourceType
     additionalMetadata attempt =
     (if content0 = [] \<or> length (trim content0) = 0
      then Inl (Error ''Content cannot be empty'', content0)
      else
        let content = (if length content0 > 40000 then take 40000 content0 else content0) in
        case generateEmbedding sv content of
          Inl e \<Rightarrow> Inl (e, content)
        | Inr embedding \<Rightarrow>
            let ident = document_id agentId knowledgeSourceId chunkIndex (date_now sv);
                doc = \<lparr>doc_id = ident, doc_values = embedding,
                       doc_metadata = document_metadata an sv knowledgeSourceId agentId content
                         chunkIndex sourceName sourceType additionalMetadata attempt\<rparr>
            in case upsert sv doc of
                 Some e \<Rightarrow> Inl (e, content)
               | None \<Rightarrow> Inr (ident, doc))"

text \<open>
  The state the storage code acts on: the contents of the index namespace, the number
  of attempts started, the number of documents upserted, and the delays slept (ms).
\<close>

record store_state =
  st_index :: "pinecone_document list"
  st_attempts :: nat
  st_stored :: nat
  st_sleeps :: "nat list"

text \<open>An upsert replaces the document that has the same identifier, or adds one.\<close>

definition pinecone_upsert :: "pinecone_document \<Rightarrow> pinecone_document list \<Rightarrow> pinecone_document list" where
  "pinecone_upsert doc idx =
     (if list_ex (\<lambda>d. doc_id d = doc_id doc) idx
      then map (\<lambda>d. if doc_id d = doc_id doc then doc else d) idx
      else idx @ [doc])"

definition maxRetries :: nat where
  "maxRetries = 3"

definition waitTime :: "nat \<Rightarrow> nat" where
  "waitTime attempt = min (1000 * 2 ^ (attempt - 1)) 5000"

text \<open>
  The retry loop \<open>for (attempt = 1; attempt <= maxRetries; attempt++)\<close>: \<open>body\<close> is the
  \<open>try\<close> block, \<open>lastError\<close> the variable of that name.
\<close>

function addDocument_loop ::
  "(nat \<Rightarrow> string \<Rightarrow> (js_error \<times> string) + (string \<times> pinecone_document)) \<Rightarrow>
   string \<Rightarrow> nat \<Rightarrow> js_error option \<Rightarrow> store_state \<Rightarrow> (js_error + string) \<times> store_state" where
  "addDocument_loop body content attempt lastError st =
     (if attempt \<le> maxRetries then
        (case body attempt content of
           Inr (ident, doc) \<Rightarrow>
             (Inr ident, st\<lparr>st_index := pinecone_upsert doc (st_index st),
                            st_attempts := Suc (st_attempts st),
                            st_stored := Suc (st_stored st)\<rparr>)
         | Inl (e, content') \<Rightarrow>
             addDocument_loop body content' (Suc attempt) (Some e)
               (st\<lparr>st_attempts := Suc (st_attempts st),
                   st_sleeps := st_sleeps st @
                     (if attempt < maxRetries then [waitTime attempt] else [])\<rparr>))
      else (Inl (case lastError of Some e \<Rightarrow> e
                 | None \<Rightarrow> Error ''Failed to add document after all retries''), st))"
  by pat_completeness auto
termination
  by (relation "measure (\<lambda>(body, content, attempt, lastError, st). Suc maxRetries - attempt)") auto

declare addDocument_loop.simps [simp del]

definition addDocument ::
  "text_analysis \<Rightarrow> (nat \<Rightarrow> services) \<Rightarrow> int \<Rightarrow> int \<Rightarrow> string \<Rightarrow> int \<Rightarrow> string option \<Rightarrow>
   string option \<Rightarrow> metadata \<Rightarrow> store_state \<Rightarrow> (js_error + string) \<times> store_state" where
  "addDocument an sv knowledgeSourceId agentId content chunkIndex sourceName sourceType
     additionalMetadata st =
     addDocument_loop
       (\<lambda>attempt c. addDocument_attempt an (sv attempt) knowledgeSourceId agentId c chunkIndex
          sourceName sourceType additionalMetadata attempt)
       content 1 None st"

section \<open>The ingestion pipeline: \<open>PineconeRAGProcessor.processKnowledgeSource\<close>\<close>

record source_data =
  sd_type :: string
  sd_name :: string
  sd_source_url :: "string option"
  sd_content :: "string option"
  sd_file_path :: "string option"

record chunk_settings =
  chunk_size :: nat
  chunk_overlap :: nat
  chunking_strategy :: string

record document_chunk =
  dc_content :: string
  dc_metadata :: metadata
  dc_chunk_index :: int

record process_result =
  pr_success :: bool
  pr_chunks_count :: nat
  pr_error :: "string option"

text \<open>
  The collaborators of one ingestion. \<open>processUrl\<close> and \<open>processYouTube\<close> give the
  outcome of the extraction raced against its 60 s timer, \<open>chunkText\<close> the outcome of
  \<open>this.chunkText\<close> raced against its 120 s timer, and \<open>chunk_services i n\<close> the
  services as they answer while the chunk at position \<open>i\<close> is stored, attempt \<open>n\<close>
  (\<open>n = 0\<close>: the moment the call is issued, which dates \<open>processed_at\<close>).
  The 30 s timer around each \<open>addDocument\<close> is not modelled: the call's own outcome
  stands for the outcome of the race.
\<close>

record ingest_env =
  analysis :: text_analysis
  processUrl :: "string \<Rightarrow> js_error + string"
  processYouTube :: "string \<Rightarrow> js_error + string"
  chunkText :: "string \<Rightarrow> nat \<Rightarrow> nat \<Rightarrow> string \<Rightarrow> js_error + document_chunk list"
  chunk_services :: "nat \<Rightarrow> nat \<Rightarrow> services"

text \<open>Truthiness of an optional string: \<open>undefined\<close> and the empty string are falsy.\<close>

definition truthy :: "string option \<Rightarrow> bool" where
  "truthy v = (case v of None \<Rightarrow> False | Some s \<Rightarrow> s \<noteq> [])"

fun js_includes :: "string \<Rightarrow> string \<Rightarrow> bool" where
  "js_includes [] sub = (sub = [])"
| "js_includes (c # cs) sub = (take (length sub) (c # cs) = sub \<or> js_includes cs sub)"

definition extractContent :: "ingest_env \<Rightarrow> source_data \<Rightarrow> js_error + string" where
  "extractContent env sd =
     (if sd_type sd = ''url'' then
        (if \<not> truthy (sd_source_url sd) then Inl (Error ''URL is required for URL type sources'')
         else processUrl env (the (sd_source_url sd)))
      else if sd_type sd = ''youtube'' then
        (if \<not> truthy (sd_source_url sd) then Inl (Error ''URL is required for YouTube type sources'')
         else processYouTube env (the (sd_source_url sd)))
      else if sd_type sd = ''text'' then
        (if \<not> truthy (sd_content sd) then Inl (Error ''Content is required for text type sources'')
         else Inr (the (sd_content sd)))
      else if sd_type sd = ''pdf'' then
        (if \<not> truthy (sd_content sd) then
           Inr (''Legacy PDF: '' @ (if sd_name sd = [] then ''Unnamed PDF'' else sd_name sd) @
                (if truthy (sd_file_path sd)
                 then '' - Content extraction pending. Please re-upload for full processing.''
                 else '' - Please re-upload this PDF for processing.''))
         else Inr (the (sd_content sd)))
      else if sd_type sd \<in> {''doc'', ''docx'', ''pptx''} then
        (if \<not> truthy (sd_content sd)
         then Inl (Error (''File type '' @ sd_type sd @ '' requires file content to be provided''))
         else Inr (the (sd_content sd)))
      else Inl (Error (''Unsupported source type: '' @ sd_type sd)))"

text \<open>
  Everything \<open>processKnowledgeSource\<close> does before it stores: extraction, the checks on
  the content, and chunking. \<open>Inl\<close> is the exception that reaches the outer \<open>catch\<close>.
\<close>

definition prepareChunks ::
  "ingest_env \<Rightarrow> source_data \<Rightarrow> chunk_settings \<Rightarrow> js_error + document_chunk list" where
  "prepareChunks env sd settings =
     (case extractContent env sd of
        Inl e \<Rightarrow> Inl e
      | Inr content0 \<Rightarrow>
          if content0 = [] \<or> trim content0 = [] then
            Inl (Error ''No content extracted from source or content is empty'')
          else if js_includes content0 ''Results available at:'' \<or> js_includes content0 ''full_zip_url'' then
            Inl (Error ''PDF processing incomplete - content extraction from MinerU ZIP file failed. Please try re-uploading the PDF or use a different format.'')
          else if length content0 < 10 then
            Inl (Error ''Content too short - minimum 10 characters required'')
          else
            let content = (if length content0 > 1000000 then take 1000000 content0 else content0) in
            (case chunkText env content (chunk_size settings) (chunk_overlap settings)
                    (chunking_strategy settings) of
               Inl e \<Rightarrow> Inl e
             | Inr chunks \<Rightarrow>
                 if chunks = [] then Inl (Error ''No chunks created from content - chunking failed'')
                 else Inr chunks))"

definition batchSize :: nat where
  "batchSize = 5"

text \<open>
  The variables the storage loop updates: \<open>successCount\<close>, \<open>lastError\<close>, and the
  store.
\<close>

type_synonym store_acc = "nat \<times> js_error option \<times> store_state"

definition storeChunk ::
  "ingest_env \<Rightarrow> int \<Rightarrow> int \<Rightarrow> source_data \<Rightarrow> chunk_settings \<Rightarrow> nat \<Rightarrow>
   nat \<times> document_chunk \<Rightarrow> store_acc \<Rightarrow> store_acc" where
  "storeChunk env sourceId agentId sd settings i pc acc =
     (case (pc, acc) of ((pos, chunk), (successCount, lastError, st)) \<Rightarrow>
        (case addDocument (analysis env) (chunk_services env pos) sourceId agentId
                (dc_content chunk) (dc_chunk_index chunk) (Some (sd_name sd)) (Some (sd_type sd))
                (dc_metadata chunk ++
                 [''original_url'' \<mapsto> opt_str (sd_source_url sd),
                  ''processing_strategy'' \<mapsto> MStr (chunking_strategy settings),
                  ''processed_at'' \<mapsto> MStr (date_iso (chunk_services env pos 0)),
                  ''batch_index'' \<mapsto> MNum (int (i div batchSize))])
                st of
           (Inr ident, st') \<Rightarrow> (Suc successCount, lastError, st')
         | (Inl e, st') \<Rightarrow> (successCount, Some e, st')))"

text \<open>
  The loop \<open>for (i = 0; i < chunks.length; i += batchSize)\<close>. The chunks of a batch are
  stored in the order of the batch; one second is slept before every batch but the first.
\<close>

function storeBatches ::
  "ingest_env \<Rightarrow> int \<Rightarrow> int \<Rightarrow> source_data \<Rightarrow> chunk_settings \<Rightarrow> document_chunk list \<Rightarrow>
   nat \<Rightarrow> store_acc \<Rightarrow> store_acc" where
  "storeBatches env sourceId agentId sd settings chunks i acc =
     (if i < length chunks then
        (case acc of (successCount, lastError, st) \<Rightarrow>
           let batch = take batchSize (drop i chunks);
               st1 = (if i > 0 then st\<lparr>st_sleeps := st_sleeps st @ [1000]\<rparr> else st)
           in storeBatches env sourceId agentId sd settings chunks (i + batchSize)
                (fold (storeChunk env sourceId agentId sd settings i)
                   (zip [i ..< i + length batch] batch) (successCount, lastError, st1)))
      else acc)"
  by pat_completeness auto
termination
  by (relation "measure (\<lambda>(env, sourceId, agentId, sd, settings, chunks, i, acc). length chunks - i)")
     (auto simp: batchSize_def)

declare storeBatches.simps [simp del]

definition processKnowledgeSource ::
  "ingest_env \<Rightarrow> int \<Rightarrow> int \<Rightarrow> source_data \<Rightarrow> chunk_settings \<Rightarrow> store_state \<Rightarrow>
   process_result \<times> store_state" where
  "processKnowledgeSource env sourceId agentId sd settings st =
     (case prepareChunks env sd settings of
        Inl e \<Rightarrow> (\<lparr>pr_success = False, pr_chunks_count = 0, pr_error = Some (message e)\<rparr>, st)
      | Inr chunks \<Rightarrow>
          (case storeBatches env sourceId agentId sd settings chunks 0 (0, None, st) of
             (successCount, lastError, st') \<Rightarrow>
               if successCount = 0 then
                 (\<lparr>pr_success = False, pr_chunks_count = 0,
                   pr_error = Some (''Storage failed: '' @
                     (case lastError of Some e \<Rightarrow> message e
                      | None \<Rightarrow> ''Failed to store any chunks''))\<rparr>, st')
               else
                 (\<lparr>pr_success = True, pr_chunks_count = successCount,
                   pr_error = (if successCount < length chunks
                     then Some (''Partial success: '' @ num_string (int successCount) @ ''/'' @
                                num_string (int (length chunks)) @ '' chunks stored'')
                     else None)\<rparr>, st')))"

text \<open>
  Whether the chunk at position \<open>pos\<close> ends up counted as stored, whatever number of
  attempts that takes. The outcome of \<open>addDocument\<close> does not depend on the store it
  starts from, so the empty one is used.
\<close>

definition empty_store :: store_state where
  "empty_store = \<lparr>st_index = [], st_attempts = 0, st_stored = 0, st_sleeps = []\<rparr>"


subsection \<open>Concrete collaborators\<close>

definition an0 :: text_analysis where
  "an0 = \<lparr>word_count = (\<lambda>_. 1), classifyContent = (\<lambda>_. ''short''),
          detectLanguage = (\<lambda>_. ''unknown''), has_numbers = (\<lambda>_. False),
          has_urls = (\<lambda>_. False), top_keywords = (\<lambda>_. []), keyword_density = (\<lambda>_. 0)\<rparr>"

definition sv_ok :: services where
  "sv_ok = \<lparr>openai_embed = (\<lambda>_. Inr [1, 0]), upsert = (\<lambda>_. None),
            date_now = 0, date_iso = ''2025''\<rparr>"

definition sv_down :: services where
  "sv_down = \<lparr>openai_embed = (\<lambda>_. Inr [1, 0]),
              upsert = (\<lambda>_. Some (Error ''Pinecone upsert timeout'')),
              date_now = 0, date_iso = ''2025''\<rparr>"

text \<open>The upsert fails on the first two attempts and succeeds on the third.\<close>

definition sv_flaky :: "nat \<Rightarrow> services" where
  "sv_flaky attempt = (if attempt < 3 then sv_down else sv_ok)"

definition two_chunks :: "document_chunk list" where
  "two_chunks = [\<lparr>dc_content = ''First part.'', dc_metadata = Map.empty, dc_chunk_index = 0\<rparr>,
                 \<lparr>dc_content = ''Second part.'', dc_metadata = Map.empty, dc_chunk_index = 1\<rparr>]"

definition env_of :: "(nat \<Rightarrow> nat \<Rightarrow> services) \<Rightarrow> ingest_env" where
  "env_of svs = \<lparr>analysis = an0, processUrl = (\<lambda>_. Inl (Error ''unreachable'')),
                 processYouTube = (\<lambda>_. Inl (Error ''unreachable'')),
                 chunkText = (\<lambda>_ _ _ _. Inr two_chunks), chunk_services = svs\<rparr>"

definition sd_text :: source_data where
  "sd_text = \<lparr>sd_type = ''text'', sd_name = ''note'', sd_source_url = None,
              sd_content = Some ''First part. Second part.'', sd_file_path = None\<rparr>"

definition settings0 :: chunk_settings where
  "settings0 = \<lparr>chunk_size = 2000, chunk_overlap = 400, chunking_strategy = ''paragraph''\<rparr>"


section \<open>The processing supervisor: \<open>queueHandler\<close>\<close>

text \<open>The columns of a \<open>knowledge_sources\<close> row that the worker code below writes.\<close>

record source_row =
  row_agent_id :: int
  row_status :: string
  row_progress_message :: string

type_synonym sources_table = "int \<rightharpoonup> source_row"

text \<open>\<open>UPDATE knowledge_sources SET status = ? WHERE id = ?\<close>: no row, no change.\<close>

definition update_status :: "string \<Rightarrow> int \<Rightarrow> sources_table \<Rightarrow> sources_table" where
  "update_status status ident db =
     (case db ident of None \<Rightarrow> db | Some row \<Rightarrow> db(ident \<mapsto> row\<lparr>row_status := status\<rparr>))"

definition update_status_message :: "string \<Rightarrow> string \<Rightarrow> int \<Rightarrow> sources_table \<Rightarrow> sources_table" where
  "update_status_message status msg ident db =
     (case db ident of None \<Rightarrow> db
      | Some row \<Rightarrow> db(ident \<mapsto> row\<lparr>row_status := status, row_progress_message := msg\<rparr>))"

record queue_message =
  qm_sourceId :: int
  qm_agentId :: int
  qm_data :: source_data
  qm_retryCount :: "nat option"

text \<open>What the handler tells the queue about a message: \<open>message.ack()\<close> or \<open>message.retry(body)\<close>.\<close>

datatype disposition = Ack | Retry queue_message

text \<open>
  The body of the loop over \<open>batch.messages\<close>. \<open>process\<close> is
  \<open>processKnowledgeSourcePineconeWithRetry\<close>: it returns the exception it throws, if
  any, and the table as it leaves it.
\<close>

definition handleMessage ::
  "(sources_table \<Rightarrow> queue_message \<Rightarrow> js_error option \<times> sources_table) \<Rightarrow>
   sources_table \<Rightarrow> queue_message \<Rightarrow> disposition \<times> sources_table" where
  "handleMessage process db msg =
     (case process (update_status ''processing'' (qm_sourceId msg) db) msg of
        (None, db') \<Rightarrow> (Ack, db')
      | (Some error, db') \<Rightarrow>
          let retryCount = (case qm_retryCount msg of None \<Rightarrow> 0 | Some n \<Rightarrow> n) + 1 in
          if retryCount \<le> 3 then (Retry (msg\<lparr>qm_retryCount := Some retryCount\<rparr>), db')
          else (Ack, update_status_message ''failed''
                  (''Processing failed after '' @ num_string (int retryCount) @ '' attempts: '' @
                   message error)
                  (qm_sourceId msg) db'))"

fun queueHandler ::
  "(sources_table \<Rightarrow> queue_message \<Rightarrow> js_error option \<times> sources_table) \<Rightarrow>
   queue_message list \<Rightarrow> sources_table \<Rightarrow> disposition list \<times> sources_table" where
  "queueHandler process [] db = ([], db)"
| "queueHandler process (msg # msgs) db =
     (case handleMessage process db msg of
        (d, db') \<Rightarrow> (case queueHandler process msgs db' of (ds, db'') \<Rightarrow> (d # ds, db'')))"

text \<open>
  Modelled from the spec: the job queue, an external transport ("at-least-once delivery
  ... with explicit \<open>ack\<close>/\<open>retry(job)\<close> signals"). A job that the handler retries is
  delivered again with the body passed to \<open>retry\<close>; a job it acknowledges is removed.
  \<open>process n\<close> is the processing as it behaves during delivery number \<open>n\<close>. The result
  is the list of dispositions, one per delivery, and the table at the end.
\<close>

function deliver ::
  "(nat \<Rightarrow> sources_table \<Rightarrow> queue_message \<Rightarrow> js_error option \<times> sources_table) \<Rightarrow>
   nat \<Rightarrow> sources_table \<Rightarrow> queue_message \<Rightarrow> disposition list \<times> sources_table" where
  "deliver process n db msg =
     (case handleMessage (process n) db msg of
        (Ack, db') \<Rightarrow> ([Ack], db')
      | (Retry msg', db') \<Rightarrow>
          (case deliver process (Suc n) db' msg' of (ds, db'') \<Rightarrow> (Retry msg' # ds, db'')))"
  by pat_completeness auto
termination
  apply (relation "measure (\<lambda>(process, n, db, msg).
                  3 - (case qm_retryCount msg of None \<Rightarrow> 0 | Some k \<Rightarrow> k))")
   apply simp
  apply (auto simp: handleMessage_def Let_def split: prod.splits option.splits if_splits)
  done

declare deliver.simps [simp del]

text \<open>The retry count a message carries: \<open>msg.retryCount || 0\<close>.\<close>

definition retries_so_far :: "queue_message \<Rightarrow> nat" where
  "retries_so_far msg = (case qm_retryCount msg of None \<Rightarrow> 0 | Some k \<Rightarrow> k)"

definition is_retry :: "disposition \<Rightarrow> bool" where
  "is_retry d = (case d of Ack \<Rightarrow> False | Retry _ \<Rightarrow> True)"

text \<open>The job as the submission endpoint enqueues it: \<open>retryCount: 0\<close>.\<close>

definition fresh_job :: "int \<Rightarrow> int \<Rightarrow> source_data \<Rightarrow> queue_message" where
  "fresh_job sourceId agentId d =
     \<lparr>qm_sourceId = sourceId, qm_agentId = agentId, qm_data = d, qm_retryCount = Some 0\<rparr>"

text \<open>A processing step that always throws, and a table with one pending source.\<close>

definition always_fails :: "nat \<Rightarrow> sources_table \<Rightarrow> queue_message \<Rightarrow> js_error option \<times> sources_table" where
  "always_fails n db msg = (Some (Error ''Storage failed''), db)"

definition one_source :: sources_table where
  "one_source = [7 \<mapsto> \<lparr>row_agent_id = 3, row_status = ''pending'', row_progress_message = []\<rparr>]"

section \<open>Deleting a knowledge source\<close>

text \<open>A metadata filter of the vector index: \<open>$eq\<close>, \<open>$gte\<close>, and \<open>$gte\<close> with \<open>$lte\<close>.\<close>

datatype filter_cond = Eq meta_value | Gte int | Between int int

type_synonym pinecone_filter = "(string \<times> filter_cond) list"

fun cond_holds :: "filter_cond \<Rightarrow> meta_value option \<Rightarrow> bool" where
  "cond_holds (Eq v) x = (x = Some v)"
| "cond_holds (Gte n) x = (case x of Some (MNum i) \<Rightarrow> n \<le> i | _ \<Rightarrow> False)"
| "cond_holds (Between lo hi) x = (case x of Some (MNum i) \<Rightarrow> lo \<le> i \<and> i \<le> hi | _ \<Rightarrow> False)"

definition matches_filter :: "pinecone_filter \<Rightarrow> metadata \<Rightarrow> bool" where
  "matches_filter f md = list_all (\<lambda>kc. cond_holds (snd kc) (md (fst kc))) f"

text \<open>
  Modelled from the spec: \<open>deleteMany(filter)\<close> of the external vector index removes
  the documents whose metadata satisfy the filter.
\<close>

definition deleteMany :: "pinecone_filter \<Rightarrow> pinecone_document list \<Rightarrow> pinecone_document list" where
  "deleteMany f idx = filter (\<lambda>d. \<not> matches_filter f (doc_metadata d)) idx"

text \<open>
  \<open>PineconeVectorStore.deleteDocuments\<close>; \<open>failure\<close> is the exception the index raises,
  if any. The \<open>catch\<close> logs and rethrows.
\<close>

definition deleteDocuments ::
  "js_error option \<Rightarrow> int \<Rightarrow> int option \<Rightarrow> pinecone_document list \<Rightarrow>
   js_error + pinecone_document list" where
  "deleteDocuments failure agentId knowledgeSourceId idx =
     (let f = [(''agent_id'', Eq (MNum agentId))] @
              (case knowledgeSourceId of None \<Rightarrow> []
               | Some k \<Rightarrow> [(''knowledge_source_id'', Eq (MNum k))])
      in case failure of Some e \<Rightarrow> Inl e | None \<Rightarrow> Inr (deleteMany f idx))"

text \<open>\<open>PineconeRAGProcessor.deleteKnowledgeSource(agentId, knowledgeSourceId)\<close>.\<close>

definition deleteKnowledgeSource ::
  "js_error option \<Rightarrow> int \<Rightarrow> int \<Rightarrow> pinecone_document list \<Rightarrow> js_error + pinecone_document list" where
  "deleteKnowledgeSource failure agentId knowledgeSourceId idx =
     deleteDocuments failure agentId (Some knowledgeSourceId) idx"

text \<open>
  The state behind the endpoint \<open>DELETE /api/knowledge-sources/:sourceId\<close>: the
  \<open>knowledge_sources\<close> table, the \<open>document_chunks\<close> table (the source each row belongs
  to) and the vector index.
\<close>

record app_state =
  as_sources :: sources_table
  as_document_chunks :: "int list"
  as_index :: "pinecone_document list"

datatype http_response = Json_success | Json_error nat string

text \<open>
  The handler. \<open>has_access\<close> says whether the authenticated user owns or is a member of
  the workspace of the source (the join of the access query); \<open>failure\<close> is the
  exception of the vector index, if any.
\<close>

definition delete_knowledge_source_endpoint ::
  "bool \<Rightarrow> js_error option \<Rightarrow> int \<Rightarrow> app_state \<Rightarrow> http_response \<times> app_state" where
  "delete_knowledge_source_endpoint has_access failure sourceId st =
     (case (if has_access then as_sources st sourceId else None) of
        None \<Rightarrow> (Json_error 404 ''Knowledge source not found or access denied'', st)
      | Some source \<Rightarrow>
          let idx = (case deleteKnowledgeSource failure sourceId sourceId (as_index st) of
                       Inl e \<Rightarrow> as_index st
                     | Inr idx' \<Rightarrow> idx')
          in (Json_success,
              \<lparr>as_sources = (as_sources st)(sourceId := None),
               as_document_chunks = filter (\<lambda>k. k \<noteq> sourceId) (as_document_chunks st),
               as_index = idx\<rparr>))"

text \<open>
  The index after source 7 of agent 3 has been ingested: the one document that
  \<open>addDocument\<close> stores for its first chunk.
\<close>

definition ingested_index :: "pinecone_document list" where
  "ingested_index =
     st_index (snd (addDocument an0 (\<lambda>_. sv_ok) 7 3 ''First part.'' 0 (Some ''note'') (Some ''text'')
                      Map.empty empty_store))"

definition ingested_state :: app_state where
  "ingested_state = \<lparr>as_sources = one_source, as_document_chunks = [], as_index = ingested_index\<rparr>"

section \<open>Retrieval: \<open>searchSimilar\<close>, \<open>hybridSearch\<close>, \<open>contextualSearch\<close>, \<open>findRelevantChunks\<close>\<close>

text \<open>
  Scores and weights are real numbers: the floating-point rounding of the products and
  sums of \<open>hybridSearch\<close> is not modelled.
\<close>

record pinecone_match =
  m_id :: string
  m_score :: "real option"
  m_metadata :: "metadata option"

record query_request =
  q_vector :: "real list"
  q_topK :: nat
  q_filter :: pinecone_filter

text \<open>
  The services of one retrieval: the embedding request and the query of the index,
  each with the exception it raises or its answer (\<open>matches\<close>, empty when absent).
\<close>

record retrieval_env =
  embed :: "string \<Rightarrow> js_error + real list"
  pinecone_query :: "query_request \<Rightarrow> js_error + pinecone_match list"

record search_filters =
  sf_source_type :: "string option"
  sf_content_type :: "string option"
  sf_language :: "string option"
  sf_min_length :: "nat option"

definition no_filters :: search_filters where
  "no_filters = \<lparr>sf_source_type = None, sf_content_type = None, sf_language = None,
                  sf_min_length = None\<rparr>"

text \<open>
  \<open>PineconeSearchResult\<close>. The content is \<open>match.metadata.content as string\<close>; a
  content that is missing or not a string is \<open>None\<close> here.
\<close>

record search_result =
  r_id :: string
  r_content :: "string option"
  r_similarity :: real
  r_metadata :: metadata

definition content_of :: "metadata \<Rightarrow> string option" where
  "content_of md = (case md ''content'' of Some (MStr s) \<Rightarrow> Some s | _ \<Rightarrow> None)"

definition embedQuery :: "retrieval_env \<Rightarrow> string \<Rightarrow> js_error + real list" where
  "embedQuery env text = embed env (if text = [] then '' '' else text)"

definition search_filter :: "int \<Rightarrow> search_filters \<Rightarrow> pinecone_filter" where
  "search_filter agentId filters =
     [(''agent_id'', Eq (MNum agentId))] @
     (if truthy (sf_source_type filters)
      then [(''source_type'', Eq (MStr (the (sf_source_type filters))))] else []) @
     (if truthy (sf_content_type filters)
      then [(''content_type'', Eq (MStr (the (sf_content_type filters))))] else []) @
     (if truthy (sf_language filters)
      then [(''language'', Eq (MStr (the (sf_language filters))))] else []) @
     (case sf_min_length filters of
        None \<Rightarrow> []
      | Some n \<Rightarrow> if n = 0 then [] else [(''content_length'', Gte (int n))])"

text \<open>The loop over the matches: \<open>similarity = match.score || 0\<close>, kept when it reaches the threshold and the match has metadata.\<close>

fun collect_results :: "real \<Rightarrow> pinecone_match list \<Rightarrow> search_result list" where
  "collect_results threshold [] = []"
| "collect_results threshold (m # ms) =
     (let similarity = (case m_score m of None \<Rightarrow> 0 | Some s \<Rightarrow> s) in
      case m_metadata m of
        None \<Rightarrow> collect_results threshold ms
      | Some md \<Rightarrow>
          if similarity \<ge> threshold
          then \<lparr>r_id = m_id m, r_content = content_of md, r_similarity = similarity,
                r_metadata = md\<rparr> # collect_results threshold ms
          else collect_results threshold ms)"

definition searchSimilar ::
  "retrieval_env \<Rightarrow> string \<Rightarrow> int \<Rightarrow> nat \<Rightarrow> real \<Rightarrow> search_filters \<Rightarrow>
   js_error + search_result list" where
  "searchSimilar env query agentId limit threshold filters =
     (case embedQuery env query of
        Inl e \<Rightarrow> Inl e
      | Inr queryEmbedding \<Rightarrow>
          (case pinecone_query env \<lparr>q_vector = queryEmbedding, q_topK = limit * 2,
                                     q_filter = search_filter agentId filters\<rparr> of
             Inl e \<Rightarrow> Inl e
           | Inr matches \<Rightarrow> Inr (take limit (collect_results threshold matches))))"

subsection \<open>Keyword scoring\<close>

definition toLowerCase_char :: "char \<Rightarrow> char" where
  "toLowerCase_char c =
     (case map_of (zip
        (''ABCDEFGHIJKLMNOPQRSTUVWXYZ'' @
         [CHR 0xC0, CHR 0xC1, CHR 0xC2, CHR 0xC3, CHR 0xC4, CHR 0xC5, CHR 0xC6, CHR 0xC7,
          CHR 0xC8, CHR 0xC9, CHR 0xCA, CHR 0xCB, CHR 0xCC, CHR 0xCD, CHR 0xCE, CHR 0xCF,
          CHR 0xD0, CHR 0xD1, CHR 0xD2, CHR 0xD3, CHR 0xD4, CHR 0xD5, CHR 0xD6,
          CHR 0xD8, CHR 0xD9, CHR 0xDA, CHR 0xDB, CHR 0xDC, CHR 0xDD, CHR 0xDE])
        (''abcdefghijklmnopqrstuvwxyz'' @
         [CHR 0xE0, CHR 0xE1, CHR 0xE2, CHR 0xE3, CHR 0xE4, CHR 0xE5, CHR 0xE6, CHR 0xE7,
          CHR 0xE8, CHR 0xE9, CHR 0xEA, CHR 0xEB, CHR 0xEC, CHR 0xED, CHR 0xEE, CHR 0xEF,
          CHR 0xF0, CHR 0xF1, CHR 0xF2, CHR 0xF3, CHR 0xF4, CHR 0xF5, CHR 0xF6,
          CHR 0xF8, CHR 0xF9, CHR 0xFA, CHR 0xFB, CHR 0xFC, CHR 0xFD, CHR 0xFE])) c of
        None \<Rightarrow> c
      | Some l \<Rightarrow> l)"

definition toLowerCase :: "string \<Rightarrow> string" where
  "toLowerCase s = map toLowerCase_char s"

text \<open>The class \<open>\w\<close>: letters, digits and the underscore.\<close>

definition is_word_char :: "char \<Rightarrow> bool" where
  "is_word_char c \<longleftrightarrow>
     c \<in> set ''abcdefghijklmnopqrstuvwxyzABCDEFGHIJKLMNOPQRSTUVWXYZ0123456789_''"

text \<open>
  \<open>s.split(/\s+/)\<close>: the pieces between the maximal runs of whitespace. \<open>cur\<close> is the
  piece being read.
\<close>

fun split_spaces_from :: "string \<Rightarrow> string \<Rightarrow> string list" where
  "split_spaces_from cur [] = [cur]"
| "split_spaces_from cur (c # cs) =
     (if is_space c then cur # split_spaces_from [] (dropWhile is_space cs)
      else split_spaces_from (cur @ [c]) cs)"

definition split_spaces :: "string \<Rightarrow> string list" where
  "split_spaces s = split_spaces_from [] s"

definition extractSearchKeywords :: "string \<Rightarrow> string list" where
  "extractSearchKeywords query =
     take 10 (filter (\<lambda>word. length word > 2)
       (split_spaces (map (\<lambda>c. if is_word_char c \<or> is_space c then c else CHR '' '')
          (toLowerCase query))))"

text \<open>
  \<open>calculateKeywordSimilarity\<close>. \<open>content.toLowerCase()\<close> raises a \<open>TypeError\<close> when the
  content is not a string.
\<close>

definition calculateKeywordSimilarity :: "string list \<Rightarrow> string option \<Rightarrow> js_error + real" where
  "calculateKeywordSimilarity keywords content =
     (case content of
        None \<Rightarrow> Inl (Error ''Cannot read properties of undefined (reading 'toLowerCase')'')
      | Some c \<Rightarrow>
          let contentLower = toLowerCase c;
              matches = length (filter (\<lambda>keyword. js_includes contentLower (toLowerCase keyword))
                                  keywords)
          in Inr (if length keywords > 0 then real matches / real (length keywords) else 0))"

subsection \<open>Hybrid search\<close>

text \<open>\<open>vectorResults.map(...)\<close>: the first exception ends the map.\<close>

fun enhance_results ::
  "string list \<Rightarrow> real \<Rightarrow> real \<Rightarrow> search_result list \<Rightarrow> js_error + search_result list" where
  "enhance_results keywords vectorWeight keywordWeight [] = Inr []"
| "enhance_results keywords vectorWeight keywordWeight (result # rest) =
     (case calculateKeywordSimilarity keywords (r_content result) of
        Inl e \<Rightarrow> Inl e
      | Inr keywordScore \<Rightarrow>
          let hybridScore = r_similarity result * vectorWeight + keywordScore * keywordWeight in
          (case enhance_results keywords vectorWeight keywordWeight rest of
             Inl e \<Rightarrow> Inl e
           | Inr rest' \<Rightarrow>
               Inr (result\<lparr>r_similarity := hybridScore,
                      r_metadata := r_metadata result ++
                        [''vector_score'' \<mapsto> MReal (r_similarity result),
                         ''keyword_score'' \<mapsto> MReal keywordScore,
                         ''hybrid_score'' \<mapsto> MReal hybridScore]\<rparr> # rest')))"

definition hybridSearch ::
  "retrieval_env \<Rightarrow> string \<Rightarrow> int \<Rightarrow> nat \<Rightarrow> real \<Rightarrow> real \<Rightarrow> js_error + search_result list" where
  "hybridSearch env query agentId limit vectorWeight keywordWeight =
     (case searchSimilar env query agentId (limit * 2) 0.5 no_filters of
        Inl e \<Rightarrow> Inl e
      | Inr vectorResults \<Rightarrow>
          (case enhance_results (extractSearchKeywords query) vectorWeight keywordWeight
                  vectorResults of
             Inl e \<Rightarrow> Inl e
           | Inr enhancedResults \<Rightarrow>
               Inr (take limit (sort_key (\<lambda>r. - r_similarity r) enhancedResults))))"

subsection \<open>Contextual search\<close>

definition meta_num :: "metadata \<Rightarrow> string \<Rightarrow> int" where
  "meta_num md k = (case md k of Some (MNum i) \<Rightarrow> i | _ \<Rightarrow> 0)"

text \<open>\<open>Array.prototype.join\<close> over the contents: a missing content is printed as the empty string.\<close>

fun join_with :: "string \<Rightarrow> string list \<Rightarrow> string" where
  "join_with sep [] = []"
| "join_with sep [s] = s"
| "join_with sep (s # t # ss) = s @ sep @ join_with sep (t # ss)"

text \<open>
  The function mapped over the hits. An exception of its own \<open>try\<close> block (the embedding
  of the dummy vector, the query for the neighbours) gives the hit back unchanged.
\<close>

definition add_context :: "retrieval_env \<Rightarrow> int \<Rightarrow> nat \<Rightarrow> search_result \<Rightarrow> search_result" where
  "add_context env agentId contextWindow result =
     (let chunkIndex = meta_num (r_metadata result) ''chunk_index'';
          knowledgeSourceId = meta_num (r_metadata result) ''knowledge_source_id'';
          contextFilter = [(''agent_id'', Eq (MNum agentId)),
                           (''knowledge_source_id'', Eq (MNum knowledgeSourceId)),
                           (''chunk_index'', Between (max 0 (chunkIndex - int contextWindow))
                                                    (chunkIndex + int contextWindow))]
      in case embedQuery env [] of
           Inl e \<Rightarrow> result
         | Inr dummy \<Rightarrow>
             (case pinecone_query env \<lparr>q_vector = dummy, q_topK = contextWindow * 2 + 1,
                                        q_filter = contextFilter\<rparr> of
                Inl e \<Rightarrow> result
              | Inr matches \<Rightarrow>
                  let contextChunks =
                        map (\<lambda>md. case content_of md of None \<Rightarrow> [] | Some s \<Rightarrow> s)
                          (sort_key (\<lambda>md. meta_num md ''chunk_index'')
                             (map the (filter (\<lambda>m. m \<noteq> None) (map m_metadata matches))))
                  in result\<lparr>r_content := (if length contextChunks > 1
                                             then Some (join_with [CHR 0x0A, CHR 0x0A] contextChunks)
                                             else r_content result),
                            r_metadata := r_metadata result ++
                              [''has_context'' \<mapsto> MBool (length contextChunks > 1),
                               ''context_chunks'' \<mapsto> MNum (int (length contextChunks))]\<rparr>))"

definition contextualSearch ::
  "retrieval_env \<Rightarrow> string \<Rightarrow> int \<Rightarrow> nat \<Rightarrow> nat \<Rightarrow> js_error + search_result list" where
  "contextualSearch env query agentId limit contextWindow =
     (case searchSimilar env query agentId limit 0.7 no_filters of
        Inl e \<Rightarrow> Inl e
      | Inr results \<Rightarrow> Inr (map (add_context env agentId contextWindow) results))"

subsection \<open>The entry point\<close>

datatype search_strategy = Vector | Hybrid | Contextual | Other string

record relevant_chunk =
  rc_content :: "string option"
  rc_similarity :: real
  rc_metadata :: metadata

text \<open>
  \<open>findRelevantChunks\<close>. The result is a sum so that the absence of an exception can be
  stated; the \<open>catch\<close> of the source turns every exception into the empty list.
\<close>

definition findRelevantChunks ::
  "retrieval_env \<Rightarrow> string \<Rightarrow> int \<Rightarrow> nat \<Rightarrow> real \<Rightarrow> search_strategy \<Rightarrow> search_filters \<Rightarrow>
   js_error + relevant_chunk list" where
  "findRelevantChunks env query agentId maxChunks threshold searchStrategy filters =
     (case (case searchStrategy of
              Vector \<Rightarrow> searchSimilar env query agentId maxChunks threshold filters
            | Hybrid \<Rightarrow> hybridSearch env query agentId maxChunks 0.8 0.2
            | Contextual \<Rightarrow> contextualSearch env query agentId maxChunks 2
            | Other s \<Rightarrow> hybridSearch env query agentId maxChunks 0.8 0.2) of
        Inl error \<Rightarrow> Inr []
      | Inr results \<Rightarrow>
          Inr (map (\<lambda>result. \<lparr>rc_content = r_content result, rc_similarity = r_similarity result,
                               rc_metadata = r_metadata result\<rparr>) results))"

subsection \<open>Concrete indexes\<close>


text \<open>An index that is down, and one that matches nothing.\<close>

definition index_down_env :: retrieval_env where
  "index_down_env = \<lparr>embed = (\<lambda>_. Inr [1, 0]),
                      pinecone_query = (\<lambda>_. Inl (Error ''Pinecone unavailable''))\<rparr>"

definition no_match_env :: retrieval_env where
  "no_match_env = \<lparr>embed = (\<lambda>_. Inr [1, 0]), pinecone_query = (\<lambda>_. Inr [])\<rparr>"

section \<open>The text segmenter: \<open>SemanticChunker\<close>\<close>

subsection \<open>String operations\<close>

definition newline :: char where
  "newline = CHR 0x0A"

definition is_end_punct :: "char \<Rightarrow> bool" where
  "is_end_punct c \<longleftrightarrow> c \<in> {CHR ''.'', CHR ''!'', CHR ''?''}"

text \<open>
  \<open>text.split(/\n\s*\n/)\<close>. A match starts at a newline and, \<open>\s*\<close> being greedy,
  ends at the last newline of the run of whitespace that follows it; without a newline
  in that run there is no match at this position.
\<close>

fun split_blank_lines_from :: "string \<Rightarrow> string \<Rightarrow> string list" where
  "split_blank_lines_from cur [] = [cur]"
| "split_blank_lines_from cur (c # cs) =
     (if c = newline \<and> newline \<in> set (takeWhile is_space cs)
      then cur # split_blank_lines_from []
             (drop (length (dropWhile (\<lambda>x. x \<noteq> newline) (rev (takeWhile is_space cs)))) cs)
      else split_blank_lines_from (cur @ [c]) cs)"

definition split_blank_lines :: "string \<Rightarrow> string list" where
  "split_blank_lines text = split_blank_lines_from [] text"

text \<open>
  \<open>text.split(/(?<=[.!?])\s+/)\<close>: a match is a maximal run of whitespace that follows
  a full stop, an exclamation mark or a question mark.
\<close>

fun split_after_punct_from :: "string \<Rightarrow> string \<Rightarrow> string list" where
  "split_after_punct_from cur [] = [cur]"
| "split_after_punct_from cur (c # cs) =
     (if is_end_punct c \<and> cs \<noteq> [] \<and> is_space (hd cs)
      then (cur @ [c]) # split_after_punct_from [] (dropWhile is_space cs)
      else split_after_punct_from (cur @ [c]) cs)"

definition split_after_punct :: "string \<Rightarrow> string list" where
  "split_after_punct text = split_after_punct_from [] text"

text \<open>\<open>text.split(/[.!?]+/)\<close>: the pieces between the maximal runs of these marks.\<close>

fun split_punct_from :: "string \<Rightarrow> string \<Rightarrow> string list" where
  "split_punct_from cur [] = [cur]"
| "split_punct_from cur (c # cs) =
     (if is_end_punct c then cur # split_punct_from [] (dropWhile is_end_punct cs)
      else split_punct_from (cur @ [c]) cs)"

definition split_punct :: "string \<Rightarrow> string list" where
  "split_punct text = split_punct_from [] text"

text \<open>\<open>text.indexOf(sub)\<close>: the first position where \<open>sub\<close> occurs, or \<open>-1\<close>.\<close>

fun indexOf_from :: "nat \<Rightarrow> string \<Rightarrow> string \<Rightarrow> int" where
  "indexOf_from i [] sub = (if sub = [] then int i else - 1)"
| "indexOf_from i (c # cs) sub =
     (if take (length sub) (c # cs) = sub then int i else indexOf_from (Suc i) cs sub)"

definition indexOf :: "string \<Rightarrow> string \<Rightarrow> int" where
  "indexOf text sub = indexOf_from 0 text sub"

text \<open>\<open>s.lastIndexOf(' ')\<close>: the last position of a space, or \<open>-1\<close>.\<close>

definition lastIndexOf_space :: "string \<Rightarrow> int" where
  "lastIndexOf_space s = int (length (dropWhile (\<lambda>x. x \<noteq> CHR '' '') (rev s))) - 1"

text \<open>\<open>s.slice(start, end)\<close>: a negative index counts from the end of the string.\<close>

definition js_slice :: "'a list \<Rightarrow> int \<Rightarrow> int \<Rightarrow> 'a list" where
  "js_slice s start end =
     (let n = int (length s);
          from = (if start < 0 then max (n + start) 0 else min start n);
          to = (if end < 0 then max (n + end) 0 else min end n)
      in take (nat (to - from)) (drop (nat from) s))"

subsection \<open>Helper methods\<close>

definition splitIntoSentences :: "string \<Rightarrow> string list" where
  "splitIntoSentences text =
     (let sentences =
            map (\<lambda>s. if s \<noteq> [] \<and> is_end_punct (last s) then s else s @ ''.'')
              (filter (\<lambda>s. length s > 10) (map trim (split_after_punct text)))
      in if length sentences \<le> 1
         then map (\<lambda>s. s @ ''.'') (filter (\<lambda>s. length s > 5) (map trim (split_punct text)))
         else sentences)"

definition countSentences :: "string \<Rightarrow> nat" where
  "countSentences text = length (filter (\<lambda>s. length (trim s) > 0) (split_punct text))"

text \<open>
  \<open>getOverlapText\<close>. The loop runs from the last sentence backwards and stops at the
  first candidate that fits; \<open>text.slice(-overlapSize)\<close> is the whole text when
  \<open>overlapSize\<close> is 0.
\<close>

definition getOverlapText :: "string \<Rightarrow> nat \<Rightarrow> string" where
  "getOverlapText text overlapSize =
     (if length text \<le> overlapSize then text
      else
        let sentences = splitIntoSentences text;
            overlap = (case List.find (\<lambda>candidate. length candidate \<le> overlapSize)
                              (map (\<lambda>i. join_with '' '' (drop i sentences))
                                 (rev [0 ..< length sentences])) of
                         None \<Rightarrow> []
                       | Some candidate \<Rightarrow> candidate)
        in if overlap \<noteq> [] then overlap
           else js_slice text (- int overlapSize) (int (length text)))"

subsection \<open>Chunks\<close>

datatype chunk_type =
  Paragraph | Sentence | Recursive | Semantic | Recursive_max_depth | Recursive_small
  | Recursive_forced

record semantic_chunk =
  sc_content :: string
  sc_chunk_type :: chunk_type
  sc_start_index :: int
  sc_end_index :: int
  sc_length :: nat
  sc_semantic_similarity :: "real option"
  sc_parent_chunk :: "nat option"
  sc_sentence_count :: nat
  sc_chunk_index :: nat

text \<open>
  The variables of the accumulation loops of \<open>chunkByParagraphs\<close> and
  \<open>chunkBySentences\<close>: \<open>chunks\<close>, \<open>currentChunk\<close>, \<open>chunkIndex\<close>, \<open>startIndex\<close>.
\<close>

type_synonym acc_state = "semantic_chunk list \<times> string \<times> nat \<times> int"

definition plain_chunk :: "chunk_type \<Rightarrow> string \<Rightarrow> int \<Rightarrow> nat \<Rightarrow> semantic_chunk" where
  "plain_chunk ty currentChunk startIndex chunkIndex =
     \<lparr>sc_content = trim currentChunk, sc_chunk_type = ty, sc_start_index = startIndex,
      sc_end_index = startIndex + int (length currentChunk), sc_length = length currentChunk,
      sc_semantic_similarity = None, sc_parent_chunk = None,
      sc_sentence_count = countSentences currentChunk, sc_chunk_index = chunkIndex\<rparr>"

text \<open>One iteration of either loop: \<open>unit\<close> is the trimmed paragraph or the sentence, \<open>sep\<close> the separator.\<close>

definition accumulate ::
  "chunk_type \<Rightarrow> string \<Rightarrow> string \<Rightarrow> nat \<Rightarrow> nat \<Rightarrow> string \<Rightarrow> acc_state \<Rightarrow> acc_state" where
  "accumulate ty sep text maxChunkSize overlap unit st =
     (case st of (chunks, currentChunk, chunkIndex, startIndex) \<Rightarrow>
        if length currentChunk + length unit > maxChunkSize \<and> length currentChunk > 0 then
          let overlapText = getOverlapText currentChunk overlap;
              currentChunk' = overlapText @ sep @ unit
          in (chunks @ [plain_chunk ty currentChunk startIndex chunkIndex], currentChunk',
              Suc chunkIndex,
              startIndex + int (length currentChunk') - int (length overlapText))
        else if length currentChunk > 0 then
          (chunks, currentChunk @ sep @ unit, chunkIndex, startIndex)
        else (chunks, unit, chunkIndex, indexOf text unit))"

definition finish :: "chunk_type \<Rightarrow> acc_state \<Rightarrow> semantic_chunk list" where
  "finish ty st =
     (case st of (chunks, currentChunk, chunkIndex, startIndex) \<Rightarrow>
        if length (trim currentChunk) > 0
        then chunks @ [plain_chunk ty currentChunk startIndex chunkIndex]
        else chunks)"

definition chunkByParagraphs :: "string \<Rightarrow> nat \<Rightarrow> nat \<Rightarrow> semantic_chunk list" where
  "chunkByParagraphs text maxChunkSize overlap =
     (let paragraphs = filter (\<lambda>p. length (trim p) > 0) (split_blank_lines text)
      in finish Paragraph
           (fold (\<lambda>paragraph. accumulate Paragraph [newline, newline] text maxChunkSize overlap
                                 (trim paragraph))
              paragraphs ([], [], 0, 0)))"

definition chunkBySentences :: "string \<Rightarrow> nat \<Rightarrow> nat \<Rightarrow> semantic_chunk list" where
  "chunkBySentences text maxChunkSize overlap =
     finish Sentence
       (fold (accumulate Sentence '' '' text maxChunkSize overlap)
          (splitIntoSentences text) ([], [], 0, 0))"

subsection \<open>Plain character splitting\<close>

text \<open>
  The loop \<open>while (start < text.length)\<close> of \<open>simpleCharacterSplit\<close>. Nothing in the
  source bounds the number of iterations, so the loop is a partial function: \<open>None\<close>
  means that it does not return. \<open>start\<close> is an integer, because \<open>end - overlap\<close> can be
  negative. The test \<open>lastSpace > maxSize * 0.8\<close> is taken over the reals.
\<close>

partial_function (option) simpleCharacterSplit_loop ::
  "string \<Rightarrow> nat \<Rightarrow> nat \<Rightarrow> int \<Rightarrow> string list \<Rightarrow> string list option" where
  "simpleCharacterSplit_loop text maxSize overlap start chunks =
     (if start < int (length text) then
        (let end = min (start + int maxSize) (int (length text));
             chunk = js_slice text start end;
             chunk' = (if end < int (length text)
                       then (let lastSpace = lastIndexOf_space chunk in
                             if real_of_int lastSpace > real maxSize * 0.8
                             then js_slice text start (start + lastSpace) else chunk)
                       else chunk)
         in simpleCharacterSplit_loop text maxSize overlap (end - int overlap) (chunks @ [chunk']))
      else Some chunks)"

definition simpleCharacterSplit :: "string \<Rightarrow> nat \<Rightarrow> nat \<Rightarrow> string list option" where
  "simpleCharacterSplit text maxSize overlap = simpleCharacterSplit_loop text maxSize overlap 0 []"

subsection \<open>Similarity statistics\<close>

text \<open>
  Numbers are reals, and \<open>None\<close> is \<open>NaN\<close>: the quotient \<open>0 / 0\<close> of a zero vector,
  which then spreads through the mean, the deviation and the threshold and makes every
  comparison false.
\<close>

definition calculateSimilarity :: "real list \<Rightarrow> real list \<Rightarrow> real option" where
  "calculateSimilarity vec1 vec2 =
     (if length vec1 \<noteq> length vec2 then Some 0
      else
        let dotProduct = sum_list (map (\<lambda>xy. fst xy * snd xy) (zip vec1 vec2));
            norm1 = sum_list (map (\<lambda>x. x * x) vec1);
            norm2 = sum_list (map (\<lambda>x. x * x) vec2)
        in if sqrt norm1 * sqrt norm2 = 0 then None
           else Some (dotProduct / (sqrt norm1 * sqrt norm2)))"

definition calculateMean :: "real option list \<Rightarrow> real option" where
  "calculateMean numbers =
     (if numbers = [] \<or> list_ex (\<lambda>x. x = None) numbers then None
      else Some (sum_list (map the numbers) / real (length numbers)))"

definition calculateStdDev :: "real option list \<Rightarrow> real option" where
  "calculateStdDev numbers =
     (case calculateMean numbers of
        None \<Rightarrow> None
      | Some mean \<Rightarrow>
          Some (sqrt (sum_list (map (\<lambda>num. (the num - mean) ^ 2) numbers) /
                      real (length numbers))))"

definition js_less :: "real option \<Rightarrow> real option \<Rightarrow> bool" where
  "js_less a b = (case (a, b) of (Some x, Some y) \<Rightarrow> x < y | _ \<Rightarrow> False)"

text \<open>\<open>Math.max(0.3, mean - stdDev * 0.5)\<close>.\<close>

definition breakpoint_threshold :: "real option list \<Rightarrow> real option" where
  "breakpoint_threshold similarities =
     (case (calculateMean similarities, calculateStdDev similarities) of
        (Some mean, Some stdDev) \<Rightarrow> Some (max 0.3 (mean - stdDev * 0.5))
      | _ \<Rightarrow> None)"

definition find_breakpoints :: "real option list \<Rightarrow> real option \<Rightarrow> nat list" where
  "find_breakpoints similarities threshold =
     fold (\<lambda>i breakpoints.
             if js_less (similarities ! i) threshold \<and> last breakpoints \<noteq> i + 1
             then breakpoints @ [i + 1] else breakpoints)
       [0 ..< length similarities] [0]"

subsection \<open>Semantic chunking\<close>

text \<open>
  The embedding service as \<open>chunkBySemantic\<close> sees it: for a batch of sentences, the
  exception raised or the embeddings returned (as many as the service chooses).
\<close>

type_synonym embedding_service = "string list \<Rightarrow> js_error + real list list"

text \<open>
  The loop \<open>for (i = 0; i < limitedSentences.length; i += batchSize)\<close>, with its own
  \<open>batchSize = 5\<close>; the exception of a batch is caught and the batch skipped.
\<close>

function generate_embeddings ::
  "embedding_service \<Rightarrow> string list \<Rightarrow> nat \<Rightarrow> real list list \<Rightarrow> real list list" where
  "generate_embeddings create limitedSentences i embeddings =
     (if i < length limitedSentences then
        (let batch = filter (\<lambda>s. length (trim s) > 10) (take 5 (drop i limitedSentences)) in
         if batch = [] then generate_embeddings create limitedSentences (i + 5) embeddings
         else (case create batch of
                 Inl embeddingError \<Rightarrow>
                   generate_embeddings create limitedSentences (i + 5) embeddings
               | Inr response \<Rightarrow>
                   generate_embeddings create limitedSentences (i + 5) (embeddings @ response)))
      else embeddings)"
  by pat_completeness auto
termination
  by (relation "measure (\<lambda>(create, limitedSentences, i, embeddings). length limitedSentences - i)")
     auto

declare generate_embeddings.simps [simp del]

text \<open>\<open>i > 0 && similarities[start - 1] ? similarities[start - 1] : undefined\<close>.\<close>

definition similarity_before :: "nat \<Rightarrow> nat \<Rightarrow> real option list \<Rightarrow> real option" where
  "similarity_before i start similarities =
     (if i > 0 \<and> start \<ge> 1 \<and> start - 1 < length similarities
      then (case similarities ! (start - 1) of
              Some x \<Rightarrow> if x \<noteq> 0 then Some x else None
            | None \<Rightarrow> None)
      else None)"

text \<open>The chunks pushed for the parts of an oversized group.\<close>

fun part_chunks :: "string \<Rightarrow> real option \<Rightarrow> string list \<Rightarrow> nat \<Rightarrow> semantic_chunk list" where
  "part_chunks text sim [] chunkIndex = []"
| "part_chunks text sim (part # parts) chunkIndex =
     \<lparr>sc_content = trim part, sc_chunk_type = Semantic,
      sc_start_index = indexOf text (trim part),
      sc_end_index = indexOf text (trim part) + int (length part),
      sc_length = length part, sc_semantic_similarity = sim, sc_parent_chunk = None,
      sc_sentence_count = countSentences part, sc_chunk_index = chunkIndex\<rparr>
     # part_chunks text sim parts (Suc chunkIndex)"

text \<open>
  The body of the loop over the breakpoints, for the group between breakpoints \<open>i\<close> and
  \<open>i + 1\<close>; the state is \<open>chunks\<close> and \<open>chunkIndex\<close>. \<open>None\<close>: the sub-splitting of the
  group does not return.
\<close>

definition semantic_group ::
  "string \<Rightarrow> nat \<Rightarrow> nat \<Rightarrow> string list \<Rightarrow> real option list \<Rightarrow> nat list \<Rightarrow> nat \<Rightarrow>
   semantic_chunk list \<times> nat \<Rightarrow> (semantic_chunk list \<times> nat) option" where
  "semantic_group text maxChunkSize overlap sentences similarities breakpoints i st =
     (case st of (chunks, chunkIndex) \<Rightarrow>
        let start = breakpoints ! i;
            end = breakpoints ! (i + 1);
            chunkSentences = js_slice sentences (int start) (int end);
            content = trim (join_with '' '' chunkSentences)
        in if length content = 0 then Some (chunks, chunkIndex)
           else if real (length content) > real maxChunkSize * 1.5 then
             (case simpleCharacterSplit content maxChunkSize overlap of
                None \<Rightarrow> None
              | Some parts \<Rightarrow>
                  Some (chunks @ part_chunks text (similarity_before i start similarities)
                                   parts chunkIndex,
                        chunkIndex + length parts))
           else
             (let startIndex = indexOf text (hd chunkSentences) in
              Some (chunks @
                      [\<lparr>sc_content = content, sc_chunk_type = Semantic,
                        sc_start_index = startIndex,
                        sc_end_index = startIndex + int (length content),
                        sc_length = length content,
                        sc_semantic_similarity = similarity_before i start similarities,
                        sc_parent_chunk = None,
                        sc_sentence_count = length chunkSentences,
                        sc_chunk_index = chunkIndex\<rparr>],
                    Suc chunkIndex)))"

fun semantic_groups ::
  "string \<Rightarrow> nat \<Rightarrow> nat \<Rightarrow> string list \<Rightarrow> real option list \<Rightarrow> nat list \<Rightarrow> nat list \<Rightarrow>
   semantic_chunk list \<times> nat \<Rightarrow> (semantic_chunk list \<times> nat) option" where
  "semantic_groups text maxChunkSize overlap sentences similarities breakpoints [] st = Some st"
| "semantic_groups text maxChunkSize overlap sentences similarities breakpoints (i # rest) st =
     (case semantic_group text maxChunkSize overlap sentences similarities breakpoints i st of
        None \<Rightarrow> None
      | Some st' \<Rightarrow>
          semantic_groups text maxChunkSize overlap sentences similarities breakpoints rest st')"

text \<open>
  \<open>chunkBySemantic\<close>. \<open>None\<close>: the call does not return. No operation of the body
  raises in this model, so the outer \<open>catch\<close> has no branch of its own.
\<close>

definition chunkBySemantic ::
  "embedding_service \<Rightarrow> string \<Rightarrow> nat \<Rightarrow> nat \<Rightarrow> semantic_chunk list option" where
  "chunkBySemantic create text maxChunkSize overlap =
     (if length text \<le> maxChunkSize then
        Some [\<lparr>sc_content = trim text, sc_chunk_type = Semantic, sc_start_index = 0,
               sc_end_index = int (length text), sc_length = length text,
               sc_semantic_similarity = None, sc_parent_chunk = None,
               sc_sentence_count = countSentences text, sc_chunk_index = 0\<rparr>]
      else
        let sentences = splitIntoSentences text in
        if length sentences \<le> 2 \<or> list_ex (\<lambda>s. length (trim s) = 0) sentences
        then Some (chunkByParagraphs text maxChunkSize overlap)
        else
          let limitedSentences = take 50 sentences;
              embeddings = generate_embeddings create limitedSentences 0 []
          in if length embeddings < 2 then Some (chunkByParagraphs text maxChunkSize overlap)
             else
               let similarities = map (\<lambda>i. calculateSimilarity (embeddings ! i) (embeddings ! (i + 1)))
                                    [0 ..< length embeddings - 1]
               in if length similarities = 0
                  then Some (chunkByParagraphs text maxChunkSize overlap)
                  else
                    let breakpoints =
                          find_breakpoints similarities (breakpoint_threshold similarities) @
                          [min (length limitedSentences) (length sentences)]
                    in if length breakpoints \<le> 2
                       then Some (chunkByParagraphs text maxChunkSize overlap)
                       else
                         (case semantic_groups text maxChunkSize overlap sentences similarities
                                 breakpoints [0 ..< length breakpoints - 1] ([], 0) of
                            None \<Rightarrow> None
                          | Some (chunks, chunkIndex) \<Rightarrow>
                              if length chunks = 0
                              then Some (chunkByParagraphs text maxChunkSize overlap)
                              else Some chunks))"

subsection \<open>Recursive chunking\<close>

text \<open>The chunk that \<open>recursiveChunk\<close> pushes: its index is the length of \<open>chunks\<close>.\<close>

definition push_chunk ::
  "chunk_type \<Rightarrow> string \<Rightarrow> nat \<Rightarrow> nat option \<Rightarrow> nat \<Rightarrow> semantic_chunk list \<Rightarrow> semantic_chunk list" where
  "push_chunk ty content parentIndex parent sentences chunks =
     (if length (trim content) > 0
      then chunks @
             [\<lparr>sc_content = trim content, sc_chunk_type = ty,
               sc_start_index = int parentIndex,
               sc_end_index = int parentIndex + int (length content),
               sc_length = length content, sc_semantic_similarity = None,
               sc_parent_chunk = parent, sc_sentence_count = sentences,
               sc_chunk_index = length chunks\<rparr>]
      else chunks)"

text \<open>\<open>parentIndex > 0 ? Math.floor(parentIndex / maxChunkSize) : undefined\<close>.\<close>

definition parent_of :: "nat \<Rightarrow> nat \<Rightarrow> nat option" where
  "parent_of parentIndex maxChunkSize =
     (if parentIndex > 0 then Some (parentIndex div maxChunkSize) else None)"

text \<open>
  The search for a word boundary within 20% of the midpoint: the first index in the
  range that holds a space or a newline, or the midpoint.
\<close>

definition find_split_point :: "string \<Rightarrow> nat" where
  "find_split_point content =
     (let midpoint = length content div 2;
          searchRange = length content div 5
      in case List.find (\<lambda>i. i < length content \<and>
                                 (content ! i = CHR '' '' \<or> content ! i = newline))
                [midpoint - searchRange ..< Suc (min (length content) (midpoint + searchRange))] of
           None \<Rightarrow> midpoint
         | Some i \<Rightarrow> i)"

text \<open>
  \<open>recursiveChunk\<close>, with the array \<open>chunks\<close> it pushes to passed through. The state of
  its two accumulation loops is \<open>chunks\<close>, \<open>currentChunk\<close> and \<open>chunkStart\<close>; \<open>gap\<close> is 2
  for paragraphs and 1 for sentences, \<open>sep\<close> the separator.
\<close>

function recursiveChunk ::
  "nat \<Rightarrow> nat \<Rightarrow> string \<Rightarrow> nat \<Rightarrow> nat \<Rightarrow> semantic_chunk list \<Rightarrow> semantic_chunk list" where
  "recursiveChunk maxChunkSize overlap content parentIndex depth chunks =
     (if depth > 10 then
        push_chunk Recursive_max_depth content parentIndex (parent_of parentIndex maxChunkSize)
          (countSentences content) chunks
      else if length content \<le> maxChunkSize then
        push_chunk Recursive content parentIndex (parent_of parentIndex maxChunkSize)
          (countSentences content) chunks
      else if length content < 50 then
        push_chunk Recursive_small content parentIndex None 1 chunks
      else
        let paragraphs = filter (\<lambda>p. length (trim p) > 0) (split_blank_lines content);
            sentences = splitIntoSentences content;
            units = (if length paragraphs > 1 then map trim paragraphs else sentences);
            sep = (if length paragraphs > 1 then [newline, newline] else '' '');
            gap = (if length paragraphs > 1 then 2 else 1)
        in if length paragraphs > 1 \<or> length sentences > 1 then
             (case fold (\<lambda>unit st. case st of (chunks, currentChunk, chunkStart) \<Rightarrow>
                           if length paragraphs > 1 \<and> length unit = 0 then st
                           else if length currentChunk + length unit + gap > maxChunkSize \<and>
                                   length currentChunk > 0 then
                             (let overlapText = getOverlapText currentChunk overlap;
                                  currentChunk' = overlapText @
                                    (if overlapText \<noteq> [] then sep else []) @ unit
                              in (recursiveChunk maxChunkSize overlap (trim currentChunk)
                                    chunkStart (Suc depth) chunks,
                                  currentChunk',
                                  chunkStart + (length currentChunk' - length overlapText -
                                                length unit)))
                           else if length currentChunk > 0 then
                             (chunks, currentChunk @ sep @ unit, chunkStart)
                           else (chunks, unit, chunkStart))
                     units (chunks, [], parentIndex) of
                (chunks', currentChunk, chunkStart) \<Rightarrow>
                  if length (trim currentChunk) > 0
                  then recursiveChunk maxChunkSize overlap (trim currentChunk) chunkStart
                         (Suc depth) chunks'
                  else chunks')
           else
             (let splitPoint = find_split_point content;
                  beforeSplit = trim (take splitPoint content);
                  afterSplit = trim (drop splitPoint content)
              in if length beforeSplit > 0 \<and> length afterSplit > 0 then
                   recursiveChunk maxChunkSize overlap afterSplit (parentIndex + splitPoint)
                     (Suc depth)
                     (recursiveChunk maxChunkSize overlap beforeSplit parentIndex (Suc depth)
                        chunks)
                 else push_chunk Recursive_forced content parentIndex None
                        (countSentences content) chunks))"
  by pat_completeness auto
termination
  by (relation "measure (\<lambda>(maxChunkSize, overlap, content, parentIndex, depth, chunks). 11 - depth)")
     auto

declare recursiveChunk.simps [simp del]

definition chunkRecursively :: "string \<Rightarrow> nat \<Rightarrow> nat \<Rightarrow> semantic_chunk list" where
  "chunkRecursively text maxChunkSize overlap =
     filter (\<lambda>chunk. length (trim (sc_content chunk)) > 0)
       (recursiveChunk maxChunkSize overlap text 0 0 [])"

subsection \<open>The dispatcher\<close>

text \<open>The strategy string: the four names, or any other string (the \<open>default\<close> branch).\<close>

datatype chunking_strategy_tag =
  By_paragraph | By_sentence | By_recursion | By_semantics | By_other string

definition chunkTextSemantically ::
  "embedding_service \<Rightarrow> string \<Rightarrow> nat \<Rightarrow> nat \<Rightarrow> chunking_strategy_tag \<Rightarrow>
   semantic_chunk list option" where
  "chunkTextSemantically create text maxChunkSize overlap strategy =
     (case strategy of
        By_paragraph \<Rightarrow> Some (chunkByParagraphs text maxChunkSize overlap)
      | By_sentence \<Rightarrow> Some (chunkBySentences text maxChunkSize overlap)
      | By_recursion \<Rightarrow> Some (chunkRecursively text maxChunkSize overlap)
      | By_semantics \<Rightarrow> chunkBySemantic create text maxChunkSize overlap
      | By_other s \<Rightarrow> Some (chunkRecursively text maxChunkSize overlap))"

subsection \<open>Concrete texts and embeddings\<close>


text \<open>
  An embedding service that places the first two sentences of a batch together and the
  third apart, so that the similarity drops between the second and the third.
\<close>

definition apart_service :: embedding_service where
  "apart_service batch = Inr [[1, 0], [1, 0], [0, 1]]"

section \<open>Properties of the vector store and of the ingestion pipeline\<close>

subsection \<open>The retry loop of \<open>addDocument\<close>\<close>





subsection \<open>The storage loop of \<open>processKnowledgeSource\<close>\<close>








subsection \<open>Truncation of the stored content\<close>




text \<open>The equations that evaluate a run on concrete collaborators.\<close>

lemmas run_defs = processKnowledgeSource_def prepareChunks_def extractContent_def sd_text_def env_of_def
      truthy_def trim_def is_space_def settings0_def two_chunks_def storeBatches.simps batchSize_def
      storeChunk_def addDocument_def addDocument_loop.simps addDocument_attempt_def maxRetries_def
      generateEmbedding_def sv_flaky_def sv_ok_def sv_down_def empty_store_def waitTime_def
      Let_def num_string_def digits.simps digit_char_def an0_def







section \<open>Properties of the processing supervisor\<close>

lemma is_retry_simps: "is_retry (Retry m)" "\<not> is_retry Ack"
  by (simp_all add: is_retry_def)

lemma handleMessage_cases:
  "handleMessage process db msg = (d, db') \<Longrightarrow>
   (d = Ack \<or> (d = Retry (msg\<lparr>qm_retryCount := Some (Suc (retries_so_far msg))\<rparr>) \<and>
                retries_so_far msg < 3))"
  by (auto simp: handleMessage_def retries_so_far_def Let_def
      split: prod.splits option.splits if_splits)

lemma handleMessage_failing:
  "handleMessage process db msg = (d, db') \<Longrightarrow> fst (process (update_status ''processing'' (qm_sourceId msg) db) msg) \<noteq> None \<Longrightarrow>
   (if retries_so_far msg < 3
    then d = Retry (msg\<lparr>qm_retryCount := Some (Suc (retries_so_far msg))\<rparr>)
    else d = Ack \<and> (\<exists>dbX e. db' = update_status_message ''failed''
                  (''Processing failed after '' @ num_string (int (Suc (retries_so_far msg))) @
                   '' attempts: '' @ message e) (qm_sourceId msg) dbX))"
  by (auto simp: handleMessage_def retries_so_far_def Let_def
      split: prod.splits option.splits if_splits)

lemma deliver_bounded:
  "deliver process n db msg = (ds, db') \<Longrightarrow>
   ds \<noteq> [] \<and> last ds = Ack \<and> list_all is_retry (butlast ds) \<and>
   length ds \<le> Suc (3 - retries_so_far msg)"
proof (induction process n db msg arbitrary: ds db' rule: deliver.induct)
  case (1 process n db msg)
  obtain d db1 where h: "handleMessage (process n) db msg = (d, db1)" by (meson surj_pair)
  show ?case
  proof (cases d)
    case Ack
    with "1.prems" h show ?thesis by (auto simp add: deliver.simps[of process n db msg])
  next
    case (Retry msg')
    obtain ds1 db2 where r: "deliver process (Suc n) db1 msg' = (ds1, db2)" by (meson surj_pair)
    from "1.prems" h Retry r have ds: "ds = Retry msg' # ds1" "db' = db2"
      by (simp_all add: deliver.simps[of process n db msg])
    from handleMessage_cases[OF h] Retry have m': "retries_so_far msg' = Suc (retries_so_far msg)"
      "retries_so_far msg < 3"
      by (auto simp: retries_so_far_def)
    from "1.IH"[OF h[symmetric] Retry r] have
      "ds1 \<noteq> [] \<and> last ds1 = Ack \<and> list_all is_retry (butlast ds1) \<and>
       length ds1 \<le> Suc (3 - retries_so_far msg')" .
    with ds m' show ?thesis by (auto simp: is_retry_simps)
  qed
qed

lemma update_status_message_status:
  "db' = update_status_message status m ident dbX \<Longrightarrow> ident \<in> dom db' \<Longrightarrow>
   row_status (the (db' ident)) = status \<and> row_progress_message (the (db' ident)) = m"
  by (auto simp: update_status_message_def split: option.splits)

lemma deliver_all_fail:
  "deliver process n db msg = (ds, db') \<Longrightarrow> \<forall>k d m. fst (process k d m) \<noteq> None \<Longrightarrow>
   length ds = Suc (3 - retries_so_far msg) \<and>
   (\<exists>dbX e. db' = update_status_message ''failed''
       (''Processing failed after '' @ num_string (int (Suc (max 3 (retries_so_far msg)))) @
        '' attempts: '' @ message e) (qm_sourceId msg) dbX)"
proof (induction process n db msg arbitrary: ds db' rule: deliver.induct)
  case (1 process n db msg)
  obtain d db1 where h: "handleMessage (process n) db msg = (d, db1)" by (meson surj_pair)
  from "1.prems"(2) have f: "fst (process n (update_status ''processing'' (qm_sourceId msg) db) msg) \<noteq> None"
    by blast
  note hf = handleMessage_failing[OF h f]
  show ?case
  proof (cases "retries_so_far msg < 3")
    case False
    with hf have d: "d = Ack" and db1: "\<exists>dbX e. db1 = update_status_message ''failed''
                  (''Processing failed after '' @ num_string (int (Suc (retries_so_far msg))) @
                   '' attempts: '' @ message e) (qm_sourceId msg) dbX"
      by auto
    from "1.prems"(1) h d have "ds = [Ack]" "db' = db1"
      by (auto simp add: deliver.simps[of process n db msg])
    moreover from False have "max 3 (retries_so_far msg) = retries_so_far msg" by simp
    ultimately show ?thesis using False db1 by simp
  next
    case True
    let ?msg' = "msg\<lparr>qm_retryCount := Some (Suc (retries_so_far msg))\<rparr>"
    from hf True have d: "d = Retry ?msg'" by simp
    obtain ds1 db2 where r: "deliver process (Suc n) db1 ?msg' = (ds1, db2)" by (meson surj_pair)
    from "1.prems"(1) h d r have ds: "ds = Retry ?msg' # ds1" "db' = db2"
      by (simp_all add: deliver.simps[of process n db msg])
    have m': "retries_so_far ?msg' = Suc (retries_so_far msg)" "qm_sourceId ?msg' = qm_sourceId msg"
      by (simp_all add: retries_so_far_def)
    from "1.IH"[OF h[symmetric] d r "1.prems"(2)] have
      "length ds1 = Suc (3 - retries_so_far ?msg') \<and>
       (\<exists>dbX e. db2 = update_status_message ''failed''
       (''Processing failed after '' @ num_string (int (Suc (max 3 (retries_so_far ?msg')))) @
        '' attempts: '' @ message e) (qm_sourceId ?msg') dbX)" .
    moreover from True have "max 3 (retries_so_far ?msg') = max 3 (retries_so_far msg)"
      unfolding m' by simp
    ultimately show ?thesis using ds True unfolding m' by auto
  qed
qed

text \<open>When every delivery fails, the retry number \<open>i + 1\<close> carries the count incremented \<open>i + 1\<close> times.\<close>

lemma deliver_all_fail_bodies:
  "deliver process n db msg = (ds, db') \<Longrightarrow> \<forall>k d m. fst (process k d m) \<noteq> None \<Longrightarrow>
   i < 3 - retries_so_far msg \<Longrightarrow>
   ds ! i = Retry (msg\<lparr>qm_retryCount := Some (retries_so_far msg + Suc i)\<rparr>)"
proof (induction process n db msg arbitrary: ds db' i rule: deliver.induct)
  case (1 process n db msg)
  obtain d db1 where h: "handleMessage (process n) db msg = (d, db1)" by (meson surj_pair)
  from "1.prems"(2) have f: "fst (process n (update_status ''processing'' (qm_sourceId msg) db) msg) \<noteq> None"
    by blast
  from "1.prems"(3) have lt: "retries_so_far msg < 3" by simp
  let ?msg' = "msg\<lparr>qm_retryCount := Some (Suc (retries_so_far msg))\<rparr>"
  from handleMessage_failing[OF h f] lt have d: "d = Retry ?msg'" by simp
  obtain ds1 db2 where r: "deliver process (Suc n) db1 ?msg' = (ds1, db2)" by (meson surj_pair)
  from "1.prems"(1) h d r have ds: "ds = Retry ?msg' # ds1"
    by (simp add: deliver.simps[of process n db msg])
  have m': "retries_so_far ?msg' = Suc (retries_so_far msg)"
    by (simp add: retries_so_far_def)
  show ?case
  proof (cases i)
    case 0
    with ds show ?thesis by simp
  next
    case (Suc j)
    with "1.prems"(3) have "j < 3 - retries_so_far ?msg'" unfolding m' by simp
    from "1.IH"[OF h[symmetric] d r "1.prems"(2) this]
    have "ds1 ! j = Retry (?msg'\<lparr>qm_retryCount := Some (retries_so_far ?msg' + Suc j)\<rparr>)" .
    with ds Suc show ?thesis unfolding m' by simp
  qed
qed

text \<open>
  Claim C4. Whatever the processing does, a job is retried at most three times and its
  last delivery is acknowledged. When every delivery fails, a job is retried
  \<open>3 - retryCount\<close> times (three times for a job enqueued with \<open>retryCount: 0\<close>), each
  time with the count incremented, and on the delivery that takes the count past 3 the
  source is marked \<open>failed\<close> with the message \<open>Processing failed after ... attempts\<close>
  and the job is acknowledged: there is no fifth delivery.
\<close>

theorem queue_redelivers_at_most_three_times:
  assumes run: "deliver process n db msg = (ds, db')"
  shows "length (filter is_retry ds) \<le> 3 \<and> ds \<noteq> [] \<and> last ds = Ack \<and>
         length ds = Suc (length (filter is_retry ds)) \<and>
         ((\<forall>k d m. fst (process k d m) \<noteq> None) \<longrightarrow>
            length (filter is_retry ds) = 3 - (case qm_retryCount msg of None \<Rightarrow> 0 | Some c \<Rightarrow> c) \<and>
            (\<forall>i < 3 - (case qm_retryCount msg of None \<Rightarrow> 0 | Some c \<Rightarrow> c).
               ds ! i = Retry (msg\<lparr>qm_retryCount :=
                  Some ((case qm_retryCount msg of None \<Rightarrow> 0 | Some c \<Rightarrow> c) + Suc i)\<rparr>)) \<and>
            (qm_sourceId msg \<in> dom db' \<longrightarrow>
               row_status (the (db' (qm_sourceId msg))) = ''failed'' \<and>
               (\<exists>e. row_progress_message (the (db' (qm_sourceId msg))) =
                  ''Processing failed after '' @
                  num_string (int (Suc (max 3 (case qm_retryCount msg of None \<Rightarrow> 0 | Some c \<Rightarrow> c)))) @
                  '' attempts: '' @ message e)))"
proof -
  from deliver_bounded[OF run] have b: "ds \<noteq> []" "last ds = Ack" "list_all is_retry (butlast ds)"
    "length ds \<le> Suc (3 - retries_so_far msg)"
    by auto
  from b(1) have split: "ds = butlast ds @ [last ds]" by simp
  have "filter is_retry ds = filter is_retry (butlast ds) @ filter is_retry [last ds]"
    by (subst split) (simp only: filter_append)
  also have "filter is_retry (butlast ds) = butlast ds"
    using b(3) by (simp add: list_all_iff)
  also have "filter is_retry [last ds] = []"
    using b(2) by (simp add: is_retry_simps)
  finally have fr: "filter is_retry ds = butlast ds" by simp
  then have len: "length ds = Suc (length (filter is_retry ds))" using b(1) by simp
  with b(4) have le3: "length (filter is_retry ds) \<le> 3" by simp
  have fail: "length (filter is_retry ds) = 3 - retries_so_far msg \<and>
            (\<forall>i < 3 - retries_so_far msg.
               ds ! i = Retry (msg\<lparr>qm_retryCount := Some (retries_so_far msg + Suc i)\<rparr>)) \<and>
            (qm_sourceId msg \<in> dom db' \<longrightarrow>
               row_status (the (db' (qm_sourceId msg))) = ''failed'' \<and>
               (\<exists>e. row_progress_message (the (db' (qm_sourceId msg))) =
                  ''Processing failed after '' @
                  num_string (int (Suc (max 3 (retries_so_far msg)))) @
                  '' attempts: '' @ message e))"
    if all: "\<forall>k d m. fst (process k d m) \<noteq> None"
  proof -
    from deliver_all_fail[OF run all] obtain dbX e where
      l: "length ds = Suc (3 - retries_so_far msg)" and
      d: "db' = update_status_message ''failed''
       (''Processing failed after '' @ num_string (int (Suc (max 3 (retries_so_far msg)))) @
        '' attempts: '' @ message e) (qm_sourceId msg) dbX"
      by blast
    from l len have "length (filter is_retry ds) = 3 - retries_so_far msg" by simp
    moreover from update_status_message_status[OF d] have
      "qm_sourceId msg \<in> dom db' \<longrightarrow>
               row_status (the (db' (qm_sourceId msg))) = ''failed'' \<and>
               (\<exists>e. row_progress_message (the (db' (qm_sourceId msg))) =
                  ''Processing failed after '' @
                  num_string (int (Suc (max 3 (retries_so_far msg)))) @
                  '' attempts: '' @ message e)"
      by blast
    moreover have "\<forall>i < 3 - retries_so_far msg.
               ds ! i = Retry (msg\<lparr>qm_retryCount := Some (retries_so_far msg + Suc i)\<rparr>)"
      using deliver_all_fail_bodies[OF run all] by blast
    ultimately show ?thesis by simp
  qed
  show ?thesis
    using le3 b(1,2) len fail unfolding retries_so_far_def by blast
qed

text \<open>
  A job enqueued with \<open>retryCount: 0\<close> whose processing always throws: three retries,
  then the acknowledgement, and the source row ends \<open>failed\<close>.
\<close>

lemmas queue_defs = handleMessage_def always_fails_def one_source_def fresh_job_def
  update_status_def update_status_message_def Let_def num_string_def digits.simps digit_char_def

theorem queue_redelivers_at_most_three_times_witness:
  "map is_retry (fst (deliver always_fails 0 one_source (fresh_job 7 3 sd_text))) =
     [True, True, True, False] \<and>
   map (\<lambda>d. case d of Ack \<Rightarrow> None | Retry m \<Rightarrow> qm_retryCount m)
     (fst (deliver always_fails 0 one_source (fresh_job 7 3 sd_text))) =
     [Some 1, Some 2, Some 3, None] \<and>
   length (filter is_retry (fst (deliver always_fails 0 one_source (fresh_job 7 3 sd_text)))) = 3 \<and>
   snd (deliver always_fails 0 one_source (fresh_job 7 3 sd_text)) 7 =
     Some \<lparr>row_agent_id = 3, row_status = ''failed'',
           row_progress_message = ''Processing failed after 4 attempts: Storage failed''\<rparr>"
proof -
  let ?run = "deliver always_fails 0 one_source (fresh_job 7 3 sd_text)"
  have all: "\<forall>k d m. fst (always_fails k d m) \<noteq> None" by (simp add: always_fails_def)
  have ev: "map is_retry (fst ?run) = [True, True, True, False]"
    by (simp add: deliver.simps queue_defs is_retry_simps)
  have cnt: "map (\<lambda>d. case d of Ack \<Rightarrow> None | Retry m \<Rightarrow> qm_retryCount m) (fst ?run) =
     [Some 1, Some 2, Some 3, None]"
    by (simp add: deliver.simps queue_defs)
  have db: "snd ?run 7 = Some \<lparr>row_agent_id = 3, row_status = ''failed'',
           row_progress_message = ''Processing failed after 4 attempts: Storage failed''\<rparr>"
    by (simp add: deliver.simps queue_defs)
  from queue_redelivers_at_most_three_times[OF prod.collapse[symmetric, of ?run]] all
  have "length (filter is_retry (fst ?run)) =
      3 - (case qm_retryCount (fresh_job 7 3 sd_text) of None \<Rightarrow> 0 | Some c \<Rightarrow> c)"
    by blast
  then have "length (filter is_retry (fst ?run)) = 3" by (simp add: fresh_job_def)
  with ev cnt db show ?thesis by simp
qed

section \<open>Properties of the delete endpoint\<close>

text \<open>The document stored for source 7 of agent 3 carries \<open>agent_id = 3\<close>.\<close>

lemma ingested_index_metadata:
  "map (\<lambda>d. (doc_id d, doc_metadata d ''agent_id'', doc_metadata d ''knowledge_source_id''))
     ingested_index = [(''3_7_0_0'', Some (MNum 3), Some (MNum 7))]"
  by (simp add: ingested_index_def run_defs document_id_def pinecone_upsert_def
      document_metadata_def extractKeywords_def)

text \<open>
  Claim C9 fails on the code. The handler calls
  \<open>deleteKnowledgeSource(parseInt(sourceId), parseInt(sourceId))\<close>: the source id stands
  where the agent id belongs, so the filter asks for \<open>agent_id = 7\<close>. Deleting source 7,
  owned by agent 3, answers success and removes the row, and the chunk of that source
  is still in the index.
\<close>

theorem delete_endpoint_leaves_chunks_of_other_agent:
  "fst (delete_knowledge_source_endpoint True None 7 ingested_state) = Json_success \<and>
   as_sources (snd (delete_knowledge_source_endpoint True None 7 ingested_state)) 7 = None \<and>
   as_sources ingested_state 7 =
     Some \<lparr>row_agent_id = 3, row_status = ''pending'', row_progress_message = []\<rparr> \<and>
   as_index (snd (delete_knowledge_source_endpoint True None 7 ingested_state)) = ingested_index \<and>
   map (\<lambda>d. (doc_id d, doc_metadata d ''agent_id'', doc_metadata d ''knowledge_source_id''))
     ingested_index = [(''3_7_0_0'', Some (MNum 3), Some (MNum 7))]"
proof -
  have keep: "deleteMany [(''agent_id'', Eq (MNum 7)), (''knowledge_source_id'', Eq (MNum 7))]
      ingested_index = ingested_index"
    unfolding deleteMany_def
  proof (rule filter_True, rule ballI)
    fix d assume "d \<in> set ingested_index"
    then have "(doc_id d, doc_metadata d ''agent_id'', doc_metadata d ''knowledge_source_id'')
       \<in> set [(''3_7_0_0'', Some (MNum 3), Some (MNum 7))]"
      unfolding ingested_index_metadata[symmetric] by simp
    then have "doc_metadata d ''agent_id'' = Some (MNum 3)" by simp
    then show "\<not> matches_filter [(''agent_id'', Eq (MNum 7)), (''knowledge_source_id'', Eq (MNum 7))]
        (doc_metadata d)"
      by (simp add: matches_filter_def)
  qed
  show ?thesis
    using ingested_index_metadata
    by (simp add: delete_knowledge_source_endpoint_def deleteKnowledgeSource_def deleteDocuments_def
        ingested_state_def one_source_def keep Let_def)
qed

section \<open>Properties of retrieval\<close>







text \<open>The equations that evaluate a retrieval on a concrete index.\<close>

lemmas retrieval_defs = findRelevantChunks_def searchSimilar_def hybridSearch_def
  contextualSearch_def add_context_def embedQuery_def
  no_filters_def search_filter_def truthy_def content_of_def Let_def
  extractSearchKeywords_def split_spaces_def toLowerCase_def toLowerCase_char_def
  is_word_char_def is_space_def calculateKeywordSimilarity_def meta_num_def



lemma findRelevantChunks_never_raises:
  "\<exists>chunks. findRelevantChunks env query agentId maxChunks threshold strategy filters = Inr chunks"
  by (simp add: findRelevantChunks_def split: sum.splits)

text \<open>
  Claim C8, as amended. \<open>findRelevantChunks\<close> never raises. When the index raises an
  error, \<open>searchSimilar\<close>, \<open>hybridSearch\<close> and \<open>contextualSearch\<close> rethrow that same
  error, and \<open>findRelevantChunks\<close> catches it and returns the empty sequence. A query
  that matches nothing returns the empty sequence from all four.
\<close>

theorem retrieval_swallows_index_errors:
  "(\<exists>chunks. findRelevantChunks env query agentId maxChunks threshold strategy filters = Inr chunks) \<and>
   ((\<exists>v. embedQuery env query = Inr v) \<and> (\<forall>req. pinecone_query env req = Inl e) \<longrightarrow>
      searchSimilar env query agentId maxChunks threshold filters = Inl e \<and>
      hybridSearch env query agentId maxChunks 0.8 0.2 = Inl e \<and>
      contextualSearch env query agentId maxChunks 2 = Inl e \<and>
      findRelevantChunks env query agentId maxChunks threshold strategy filters = Inr []) \<and>
   ((\<exists>v. embedQuery env query = Inr v) \<and> (\<forall>req. pinecone_query env req = Inr []) \<longrightarrow>
      searchSimilar env query agentId maxChunks threshold filters = Inr [] \<and>
      hybridSearch env query agentId maxChunks 0.8 0.2 = Inr [] \<and>
      contextualSearch env query agentId maxChunks 2 = Inr [] \<and>
      findRelevantChunks env query agentId maxChunks threshold strategy filters = Inr [])"
proof (intro conjI impI)
  show "\<exists>chunks. findRelevantChunks env query agentId maxChunks threshold strategy filters = Inr chunks"
    by (rule findRelevantChunks_never_raises)
next
  assume a: "(\<exists>v. embedQuery env query = Inr v) \<and> (\<forall>req. pinecone_query env req = Inl e)"
  then have s: "\<And>limit th fs. searchSimilar env query agentId limit th fs = Inl e"
    by (auto simp: searchSimilar_def)
  show "searchSimilar env query agentId maxChunks threshold filters = Inl e" by (rule s)
  show "hybridSearch env query agentId maxChunks 0.8 0.2 = Inl e" by (simp add: hybridSearch_def s)
  show "contextualSearch env query agentId maxChunks 2 = Inl e" by (simp add: contextualSearch_def s)
  then show "findRelevantChunks env query agentId maxChunks threshold strategy filters = Inr []"
    by (cases strategy) (simp_all add: findRelevantChunks_def s hybridSearch_def)
next
  assume a: "(\<exists>v. embedQuery env query = Inr v) \<and> (\<forall>req. pinecone_query env req = Inr [])"
  then have s: "\<And>limit th fs. searchSimilar env query agentId limit th fs = Inr []"
    by (auto simp: searchSimilar_def)
  show "searchSimilar env query agentId maxChunks threshold filters = Inr []" by (rule s)
  have h: "\<And>vw kw. hybridSearch env query agentId maxChunks vw kw = Inr []"
    by (simp add: hybridSearch_def s)
  show "hybridSearch env query agentId maxChunks 0.8 0.2 = Inr []" by (rule h)
  show c: "contextualSearch env query agentId maxChunks 2 = Inr []" by (simp add: contextualSearch_def s)
  show "findRelevantChunks env query agentId maxChunks threshold strategy filters = Inr []"
    by (cases strategy) (simp_all add: findRelevantChunks_def s h c)
qed

text \<open>
  Claim C8 as stated fails: with the index down, \<open>searchSimilar\<close> raises, and the
  caller of \<open>findRelevantChunks\<close> receives the empty sequence, not a failure.
\<close>

theorem retrieval_swallows_index_errors_counterexample:
  "searchSimilar index_down_env ''zzz'' 3 3 (7 / 10) no_filters = Inl (Error ''Pinecone unavailable'') \<and>
   findRelevantChunks index_down_env ''zzz'' 3 3 (7 / 10) Vector no_filters = Inr [] \<and>
   findRelevantChunks index_down_env ''zzz'' 3 3 (7 / 10) Hybrid no_filters = Inr [] \<and>
   findRelevantChunks index_down_env ''zzz'' 3 3 (7 / 10) Contextual no_filters = Inr []"
  by (simp add: retrieval_defs index_down_env_def)

theorem retrieval_swallows_index_errors_witness:
  "embedQuery index_down_env ''zzz'' = Inr [1, 0] \<and>
   pinecone_query index_down_env = (\<lambda>req. Inl (Error ''Pinecone unavailable'')) \<and>
   searchSimilar index_down_env ''zzz'' 3 3 (7 / 10) no_filters = Inl (Error ''Pinecone unavailable'') \<and>
   findRelevantChunks index_down_env ''zzz'' 3 3 (7 / 10) Hybrid no_filters = Inr [] \<and>
   embedQuery no_match_env ''zzz'' = Inr [1, 0] \<and>
   pinecone_query no_match_env = (\<lambda>req. Inr []) \<and>
   searchSimilar no_match_env ''zzz'' 3 3 (7 / 10) no_filters = Inr [] \<and>
   findRelevantChunks no_match_env ''zzz'' 3 3 (7 / 10) Hybrid no_filters = Inr []"
proof -
  have d1: "embedQuery index_down_env ''zzz'' = Inr [1, 0]"
    and d2: "pinecone_query index_down_env = (\<lambda>req. Inl (Error ''Pinecone unavailable''))"
    by (simp_all add: embedQuery_def index_down_env_def)
  have n1: "embedQuery no_match_env ''zzz'' = Inr [1, 0]"
    and n2: "pinecone_query no_match_env = (\<lambda>req. Inr [])"
    by (simp_all add: embedQuery_def no_match_env_def)
  from retrieval_swallows_index_errors[of index_down_env "''zzz''" 3 3 "7 / 10" Hybrid no_filters
      "Error ''Pinecone unavailable''"] d1 d2
  have down: "searchSimilar index_down_env ''zzz'' 3 3 (7 / 10) no_filters = Inl (Error ''Pinecone unavailable'')"
    "findRelevantChunks index_down_env ''zzz'' 3 3 (7 / 10) Hybrid no_filters = Inr []"
    by simp_all
  from retrieval_swallows_index_errors[of no_match_env "''zzz''" 3 3 "7 / 10" Hybrid no_filters] n1 n2
  have none: "searchSimilar no_match_env ''zzz'' 3 3 (7 / 10) no_filters = Inr []"
    "findRelevantChunks no_match_env ''zzz'' 3 3 (7 / 10) Hybrid no_filters = Inr []"
    by simp_all
  from d1 d2 down n1 n2 none show ?thesis by simp
qed

section \<open>Properties of the text segmenter\<close>

subsection \<open>The plain character splitting\<close>


text \<open>Without overlap \<open>start\<close> grows by \<open>maxSize\<close> in each iteration, and the loop returns.\<close>

lemma simpleCharacterSplit_loop_returns:
  assumes m: "0 < maxSize"
  shows "\<exists>parts. simpleCharacterSplit_loop text maxSize 0 start chunks = Some parts"
proof (induction "nat (int (length text) - start)" arbitrary: start chunks rule: less_induct)
  case less
  show ?case
  proof (cases "start < int (length text)")
    case False
    then show ?thesis by (subst simpleCharacterSplit_loop.simps) simp
  next
    case True
    let ?end = "min (start + int maxSize) (int (length text))"
    from True m have "nat (int (length text) - ?end) < nat (int (length text) - start)"
      by (auto simp: min_def)
    from less[OF this] have "\<And>c. \<exists>parts. simpleCharacterSplit_loop text maxSize 0 ?end c = Some parts"
      by blast
    with True show ?thesis
      by (subst simpleCharacterSplit_loop.simps) (simp add: Let_def)
  qed
qed

subsection \<open>Semantic chunking on concrete inputs\<close>

text \<open>The equations that evaluate the segmenter on a concrete text.\<close>

lemmas chunk_defs = splitIntoSentences_def split_after_punct_def split_punct_def
  split_blank_lines_def trim_def is_space_def is_end_punct_def newline_def Let_def
  countSentences_def chunkByParagraphs_def accumulate_def finish_def plain_chunk_def
  indexOf_def






text \<open>
  Claim C5, as amended. For a text that is longer than \<open>maxChunkSize\<close> and has fewer
  than three sentences, the semantic strategy returns exactly the chunks of the
  paragraph strategy for the same text, size and overlap.
\<close>

theorem chunkBySemantic_falls_back_to_paragraphs:
  assumes "maxChunkSize < length text" and "length (splitIntoSentences text) \<le> 2"
  shows "chunkBySemantic create text maxChunkSize overlap =
           Some (chunkByParagraphs text maxChunkSize overlap) \<and>
         chunkTextSemantically create text maxChunkSize overlap By_semantics =
           chunkTextSemantically create text maxChunkSize overlap By_paragraph"
  using assms by (simp add: chunkBySemantic_def chunkTextSemantically_def Let_def)

theorem chunkBySemantic_falls_back_to_paragraphs_witness:
  "5 < length ''Hello world. Bye.'' \<and>
   length (splitIntoSentences ''Hello world. Bye.'') = 1 \<and>
   chunkBySemantic apart_service ''Hello world. Bye.'' 5 0 =
     Some (chunkByParagraphs ''Hello world. Bye.'' 5 0) \<and>
   chunkByParagraphs ''Hello world. Bye.'' 5 0 =
     [\<lparr>sc_content = ''Hello world. Bye.'', sc_chunk_type = Paragraph, sc_start_index = 0,
       sc_end_index = 17, sc_length = 17, sc_semantic_similarity = None,
       sc_parent_chunk = None, sc_sentence_count = 2, sc_chunk_index = 0\<rparr>]"
proof -
  have l: "5 < length ''Hello world. Bye.''" by simp
  have s: "length (splitIntoSentences ''Hello world. Bye.'') = 1"
    by (simp add: chunk_defs)
  then have s2: "length (splitIntoSentences ''Hello world. Bye.'') \<le> 2" by simp
  have p: "chunkByParagraphs ''Hello world. Bye.'' 5 0 =
     [\<lparr>sc_content = ''Hello world. Bye.'', sc_chunk_type = Paragraph, sc_start_index = 0,
       sc_end_index = 17, sc_length = 17, sc_semantic_similarity = None,
       sc_parent_chunk = None, sc_sentence_count = 2, sc_chunk_index = 0\<rparr>]"
    by (simp add: chunk_defs)
  from chunkBySemantic_falls_back_to_paragraphs[OF l s2, of apart_service 0] l s p
  show ?thesis by simp
qed

text \<open>
  Claim C5 as stated fails: a text of one sentence that fits into \<open>maxChunkSize\<close> is
  returned by the semantic strategy as one chunk of type \<open>semantic\<close>, before the
  sentences are counted; the paragraph strategy returns it with type \<open>paragraph\<close>.
\<close>

theorem chunkBySemantic_falls_back_to_paragraphs_counterexample:
  "length (splitIntoSentences ''Hello world.'') = 1 \<and>
   chunkBySemantic apart_service ''Hello world.'' 2000 400 =
     Some [\<lparr>sc_content = ''Hello world.'', sc_chunk_type = Semantic, sc_start_index = 0,
            sc_end_index = 12, sc_length = 12, sc_semantic_similarity = None,
            sc_parent_chunk = None, sc_sentence_count = 1, sc_chunk_index = 0\<rparr>] \<and>
   chunkByParagraphs ''Hello world.'' 2000 400 =
     [\<lparr>sc_content = ''Hello world.'', sc_chunk_type = Paragraph, sc_start_index = 0,
       sc_end_index = 12, sc_length = 12, sc_semantic_similarity = None,
       sc_parent_chunk = None, sc_sentence_count = 1, sc_chunk_index = 0\<rparr>] \<and>
   chunkBySemantic apart_service ''Hello world.'' 2000 400 \<noteq>
     Some (chunkByParagraphs ''Hello world.'' 2000 400)"
  by (simp add: chunkBySemantic_def chunk_defs)


end
